theory Spec2Isabelle
  imports Complex_Main "HOL-Library.Sublist" "HOL-Library.Word"
begin

section \<open>The heuristic scoring engine of the deepfake dashboard\<close>

text \<open>
  The repository holds three versions of the class \<open>DeepfakeDetector\<close>, which the
  specification calls policy variants of one engine:
  \<^item> \<open>v1\<close>: \<^verbatim>\<open>src/utils/deepfakeDetector.ts\<close> (the aggressive tuning, random base score);
  \<^item> \<open>v2\<close>: the second unit of \<^verbatim>\<open>src/utils/modelLoader.ts\<close> (lines 134 to 820);
  \<^item> \<open>v3\<close>: \<^verbatim>\<open>unnamed/part_001\<close> (the conservative tuning).
  \<open>ImageProcessor\<close> is \<^verbatim>\<open>unnamed/part_000\<close>. Every function below carries the suffix of
  the version it is taken from.

  The numbers of the source are double-precision floats. The frame sampler and the
  extractors of the face ratio and of the edge consistency are modelled with the rounding
  of every operation (\<open>fl\<close> below): there a rounding decides a comparison or is part of
  the result. The scorers, the temporal consistency and the colour extractor are
  modelled over the reals: they add and compare a few small constants, test signals
  against thresholds and clamp. Where the source can produce \<open>NaN\<close> from a pixel buffer (a
  read past the end of the array, \<open>0 / 0\<close>), the value is an \<open>option\<close> and \<open>None\<close> stands
  for \<open>NaN\<close>. Values returned by \<open>Math.random()\<close> and by \<open>performance.now()\<close> are inputs
  of the model.
\<close>

subsection \<open>Result records\<close>

datatype threat = Low | Medium | High | Critical

text \<open>The order \<open>low < medium < high < critical\<close> of the threat levels.\<close>

fun threatRank :: "threat \<Rightarrow> nat" where
  "threatRank Low = 0"
| "threatRank Medium = 1"
| "threatRank High = 2"
| "threatRank Critical = 3"

record DetectionAnalysis =
  faceDetection :: real
  temporalConsistency :: real
  artifactDetection :: real
  imageQuality :: real
  neuralNetworkConfidence :: real

record DeepfakeDetectionResult =
  isDeepfake :: bool
  confidence :: real
  threatLevel :: threat
  analysis :: DetectionAnalysis
  processingTime :: real

subsection \<open>Strings\<close>

text \<open>
  \<open>String.prototype.toLowerCase\<close> on the ASCII letters; every other character is kept.
  \<open>includes_str s k\<close> is \<open>s.includes(k)\<close>: \<open>k\<close> occurs in \<open>s\<close> as a contiguous run.
  \<open>startsWith s p\<close> is \<open>s.startsWith(p)\<close>.
\<close>

definition toLowerChar :: "char \<Rightarrow> char" where
  "toLowerChar c =
     (case map_of (zip ''ABCDEFGHIJKLMNOPQRSTUVWXYZ'' ''abcdefghijklmnopqrstuvwxyz'') c of
        Some l \<Rightarrow> l
      | None \<Rightarrow> c)"

definition toLowerCase :: "string \<Rightarrow> string" where
  "toLowerCase s = map toLowerChar s"

fun includes_str :: "string \<Rightarrow> string \<Rightarrow> bool" where
  "includes_str [] k = (k = [])"
| "includes_str (c # s) k = (prefix k (c # s) \<or> includes_str s k)"

definition startsWith :: "string \<Rightarrow> string \<Rightarrow> bool" where
  "startsWith s p = prefix p s"

subsection \<open>Threat level\<close>

fun calculateThreatLevel_v1 :: "real \<Rightarrow> DetectionAnalysis \<Rightarrow> threat" where
  "calculateThreatLevel_v1 conf a =
     (if conf > 85 \<and> artifactDetection a > 70 then Critical
      else if conf > 70 then High
      else if conf > 50 then Medium
      else Low)"

fun calculateThreatLevel_v2 :: "real \<Rightarrow> DetectionAnalysis \<Rightarrow> threat" where
  "calculateThreatLevel_v2 conf a =
     (if conf > 90 \<and> artifactDetection a > 80 then Critical
      else if conf > 85 \<or> (conf > 75 \<and> artifactDetection a > 70) then Critical
      else if conf > 75 \<or> (conf > 65 \<and> artifactDetection a > 60) then High
      else if conf > 60 \<or> (conf > 50 \<and> artifactDetection a > 50) then Medium
      else Low)"

fun calculateThreatLevel_v3 :: "real \<Rightarrow> DetectionAnalysis \<Rightarrow> threat" where
  "calculateThreatLevel_v3 conf a =
     (if conf > 95 \<and> artifactDetection a > 90 then Critical
      else if conf > 90 \<and> artifactDetection a > 85 then Critical
      else if conf > 85 \<and> artifactDetection a > 80 then High
      else if conf > 80 then High
      else if conf > 75 then Medium
      else Low)"

subsection \<open>Temporal consistency\<close>

text \<open>
  The loop \<^verbatim>\<open>for (let i = 1; i < frameAnalyses.length; i++)\<close> runs over the indices
  \<open>[1..<length fs]\<close>; both \<open>fs ! (i - 1)\<close> and \<open>fs ! i\<close> are inside the array there.
\<close>

definition frameConsistency_v1 :: "DetectionAnalysis \<Rightarrow> DetectionAnalysis \<Rightarrow> real" where
  "frameConsistency_v1 prev cur =
     (let faceDiff = \<bar>faceDetection prev - faceDetection cur\<bar>;
          artifactDiff = \<bar>artifactDetection prev - artifactDetection cur\<bar>;
          qualityDiff = \<bar>imageQuality prev - imageQuality cur\<bar>
      in 100 - (faceDiff + artifactDiff + qualityDiff) / 3)"

definition calculateTemporalConsistency_v1 :: "DetectionAnalysis list \<Rightarrow> real" where
  "calculateTemporalConsistency_v1 fs =
     (if length fs < 2 then 100
      else let consistencyScore =
                 fold (\<lambda>i s. s + frameConsistency_v1 (fs ! (i - 1)) (fs ! i)) [1..<length fs] 0
           in max 0 (consistencyScore / real (length fs - 1)))"

definition frameConsistency_v2 :: "DetectionAnalysis \<Rightarrow> DetectionAnalysis \<Rightarrow> real" where
  "frameConsistency_v2 prev cur =
     (let faceDiff = \<bar>faceDetection prev - faceDetection cur\<bar>;
          artifactDiff = \<bar>artifactDetection prev - artifactDetection cur\<bar>;
          qualityDiff = \<bar>imageQuality prev - imageQuality cur\<bar>;
          weightedDiff = faceDiff * 0.4 + artifactDiff * 0.4 + qualityDiff * 0.2
      in max 0 (100 - weightedDiff))"

definition calculateTemporalConsistency_v2 :: "DetectionAnalysis list \<Rightarrow> real" where
  "calculateTemporalConsistency_v2 fs =
     (if length fs < 2 then 100
      else let consistencyScore =
                 fold (\<lambda>i s. s + frameConsistency_v2 (fs ! (i - 1)) (fs ! i)) [1..<length fs] 0
           in consistencyScore / real (length fs - 1))"

definition frameConsistency_v3 :: "DetectionAnalysis \<Rightarrow> DetectionAnalysis \<Rightarrow> real" where
  "frameConsistency_v3 prev cur =
     (let faceDiff = \<bar>faceDetection prev - faceDetection cur\<bar>;
          artifactDiff = \<bar>artifactDetection prev - artifactDetection cur\<bar>;
          qualityDiff = \<bar>imageQuality prev - imageQuality cur\<bar>;
          weightedDiff = faceDiff * 0.3 + artifactDiff * 0.3 + qualityDiff * 0.1
      in max 60 (100 - weightedDiff / 2))"

definition calculateTemporalConsistency_v3 :: "DetectionAnalysis list \<Rightarrow> real" where
  "calculateTemporalConsistency_v3 fs =
     (if length fs < 2 then 90
      else let consistencyScore =
                 fold (\<lambda>i s. s + frameConsistency_v3 (fs ! (i - 1)) (fs ! i)) [1..<length fs] 0
           in consistencyScore / real (length fs - 1))"

subsection \<open>Double-precision numbers\<close>

text \<open>
  The rounding of IEEE 754 binary64 arithmetic, to nearest with ties to even. \<open>rne\<close>
  rounds a real to an integer. \<open>expo x\<close> is the exponent of the binade of \<open>x\<close>, never
  below \<open>- 1022\<close>, the exponent of the subnormal numbers; \<open>ulp x\<close> is the spacing of the
  doubles in that binade, 52 binary places further down; \<open>fl x\<close> is the multiple of
  \<open>ulp x\<close> nearest to \<open>x\<close>. An operation \<open>a + b\<close> of the source is \<open>fl (a + b)\<close> here,
  likewise for \<open>-\<close>, \<open>*\<close>, \<open>/\<close> and \<open>Math.sqrt\<close>, and a decimal literal \<open>c\<close> is \<open>fl c\<close>. Integers
  below \<open>2 ^ 53\<close> and the literal \<open>0.5\<close> are doubles and are written as they are; so are
  negation, \<open>Math.abs\<close>, \<open>Math.max\<close>, \<open>Math.min\<close> and \<open>%\<close>, which are exact.

  \<open>fl\<close> has no largest exponent. A result of magnitude \<open>2 ^ 1024\<close> or more is an infinity
  in the source: \<open>roundN\<close> makes this test where a value can grow, in the frame sampler.
  The extractors work on samples between 0 and 255 and on pixel coordinates, and stay
  far below that.
\<close>

definition rne :: "real \<Rightarrow> int" where
  "rne z =
     (let f = \<lfloor>z\<rfloor>;
          r = z - of_int f
      in if r < 1 / 2 then f
         else if 1 / 2 < r then f + 1
         else if even f then f else f + 1)"

definition expo :: "real \<Rightarrow> int" where
  "expo x = max (- 1022) \<lfloor>log 2 \<bar>x\<bar>\<rfloor>"

definition ulp :: "real \<Rightarrow> real" where
  "ulp x = 2 powi (expo x - 52)"

definition fl :: "real \<Rightarrow> real" where
  "fl x = (if x = 0 then 0 else of_int (rne (x / ulp x)) * ulp x)"

text \<open>
  A number that need not be finite: the duration of a video (\<open>Infinity\<close> for a live
  stream), the sampling interval, the next seek time. \<open>roundN x\<close> is the double that an
  operation with the exact result \<open>x\<close> returns. \<open>numDiv\<close> is \<open>duration / maxFrames\<close>, with
  the quotients by 0 of JavaScript; \<open>numAdd\<close> is \<open>currentTime + interval\<close>; \<open>numLess\<close> and
  \<open>numGreater\<close> are the comparisons \<open>videoDuration < c\<close> and \<open>videoDuration > c\<close>, false
  on \<open>NaN\<close>.
\<close>

datatype number = Finite real | PosInfinity | NegInfinity | NaN

definition roundN :: "real \<Rightarrow> number" where
  "roundN x =
     (if 2 ^ 1024 \<le> fl x then PosInfinity
      else if fl x \<le> - (2 ^ 1024) then NegInfinity
      else Finite (fl x))"

fun numDiv :: "number \<Rightarrow> nat \<Rightarrow> number" where
  "numDiv (Finite d) n =
     (if n = 0 then (if d = 0 then NaN else if 0 < d then PosInfinity else NegInfinity)
      else roundN (d / real n))"
| "numDiv PosInfinity n = PosInfinity"
| "numDiv NegInfinity n = NegInfinity"
| "numDiv NaN n = NaN"

fun numAdd :: "real \<Rightarrow> number \<Rightarrow> number" where
  "numAdd t (Finite i) = roundN (t + i)"
| "numAdd t PosInfinity = PosInfinity"
| "numAdd t NegInfinity = NegInfinity"
| "numAdd t NaN = NaN"

fun numLess :: "number \<Rightarrow> real \<Rightarrow> bool" where
  "numLess (Finite x) c = (x < c)"
| "numLess PosInfinity c = False"
| "numLess NegInfinity c = True"
| "numLess NaN c = False"

fun numGreater :: "number \<Rightarrow> real \<Rightarrow> bool" where
  "numGreater (Finite x) c = (x > c)"
| "numGreater PosInfinity c = True"
| "numGreater NegInfinity c = False"
| "numGreater NaN c = False"

subsection \<open>Files, decoded media and promises\<close>

text \<open>
  The scorers read seven scalar signals from an image or a video frame, each returned by
  one extractor call. \<open>signals\<close> holds the values those calls returned
  (\<open>qualityScore\<close> is the local constant \<open>imageQuality\<close>). One of them can be \<open>NaN\<close>:
  \<open>compressionArtifacts\<close> in versions 2 and 3, the quotient \<open>0 / 0\<close> for an image with no
  full block of 8 by 8 pixels. A \<open>NaN\<close> fails every test \<open>compressionArtifacts > c\<close> of the
  scorers, as the value 0 does; that case is the value 0 here.
\<close>

record signals =
  faceDetectionScore :: real
  artifactScore :: real
  qualityScore :: real
  compressionArtifacts :: real
  edgeConsistency :: real
  colorConsistency :: real
  frequencyAnalysis :: real

text \<open>
  A loaded \<open>HTMLImageElement\<close>: its dimensions and the signals extracted from it. A video
  element: its duration once the metadata are loaded (a time of at least 0, or
  \<open>Infinity\<close>), whether the canvas gives a 2D context, and the signals of the frame drawn
  after seeking to a time.
\<close>

record image =
  imgWidth :: nat
  imgHeight :: nat
  imgSignals :: signals

record video =
  duration :: number
  context2d :: bool
  frameSignals :: "real \<Rightarrow> signals"

text \<open>
  A \<open>File\<close>: \<open>fileName\<close>, \<open>fileType\<close> and \<open>fileSize\<close> are \<open>file.name\<close>, \<open>file.type\<close> and
  \<open>file.size\<close>. \<open>asImage\<close> is what the browser makes of the bytes as an image (\<open>None\<close>
  when \<open>img.onerror\<close> fires) and \<open>asVideo\<close> what it makes of them as a video (\<open>None\<close>
  when \<open>video.onerror\<close> fires).
\<close>

record File =
  fileName :: string
  fileType :: string
  fileSize :: nat
  asImage :: "image option"
  asVideo :: "video option"

datatype error = ModelsNotInitialized | UnsupportedFileType | LoadError

text \<open>
  The outcome of an \<open>async\<close> call: the promise resolves with a value, rejects with an
  error, or never settles.
\<close>

datatype 'a promise = Resolved 'a | Rejected error | Pending

fun await :: "'a promise \<Rightarrow> ('a \<Rightarrow> 'b promise) \<Rightarrow> 'b promise" where
  "await (Resolved x) k = k x"
| "await (Rejected e) k = Rejected e"
| "await Pending k = Pending"

text \<open>
  \<open>ModelLoader\<close>: the two network objects are created by \<open>initializeModels\<close> and never
  consulted by the scorers; only their presence is tested.
\<close>

type_synonym LayersModel = unit

record ModelLoader =
  deepfakeModel :: "LayersModel option"
  faceDetectionModel :: "LayersModel option"

definition isModelsReady :: "ModelLoader \<Rightarrow> bool" where
  "isModelsReady ml = (deepfakeModel ml \<noteq> None \<and> faceDetectionModel ml \<noteq> None)"

definition loadImage :: "File \<Rightarrow> image promise" where
  "loadImage f = (case asImage f of None \<Rightarrow> Rejected LoadError | Some img \<Rightarrow> Resolved img)"

definition getVideoDuration :: "File \<Rightarrow> number" where
  "getVideoDuration f = (case asVideo f of None \<Rightarrow> Finite 30 | Some v \<Rightarrow> duration v)"

subsection \<open>Frame sampling\<close>

text \<open>
  \<open>ImageProcessor.extractFramesFromVideo\<close>. The event handlers form a loop: seek to
  \<open>currentTime\<close>, draw and capture on \<open>seeked\<close>, count the frame, then either advance
  \<open>currentTime\<close> by \<open>interval\<close> and seek again, or resolve. A captured frame records the
  time it was captured at and the signals later extracted from it. With no 2D context the
  \<open>seeked\<close> handler does nothing and the promise never settles. The assignment
  \<^verbatim>\<open>video.currentTime = currentTime\<close> throws a \<open>TypeError\<close> when the time is not finite;
  the exception leaves the \<open>onload\<close> handler, no further event arrives and the promise
  never settles. For \<open>maxFrames = 0\<close> the source computes \<open>interval = duration / 0\<close> and
  never uses it. The default of 10 for \<open>maxFrames\<close> is not modelled: the three detectors
  pass 5. \<open>frameCount\<close> is a natural number: the counts stay far below \<open>2 ^ 53\<close>, where
  \<open>frameCount++\<close> is exact.
\<close>

record frame =
  capturedAt :: real
  frameSig :: signals

definition capture :: "video \<Rightarrow> real \<Rightarrow> frame" where
  "capture v t = \<lparr>capturedAt = t, frameSig = frameSignals v t\<rparr>"

function captureLoop ::
  "video \<Rightarrow> number \<Rightarrow> nat \<Rightarrow> real \<Rightarrow> nat \<Rightarrow> frame list \<Rightarrow> frame list promise" where
  "captureLoop v interval maxFrames currentTime frameCount frames =
     (let frames' = frames @ [capture v currentTime];
          frameCount' = frameCount + 1
      in if frameCount' < maxFrames
         then (case numAdd currentTime interval of
                 Finite t \<Rightarrow> captureLoop v interval maxFrames t frameCount' frames'
               | _ \<Rightarrow> Pending)
         else Resolved frames')"
  by pat_completeness auto
termination
  by (relation "measure (\<lambda>(v, interval, maxFrames, currentTime, frameCount, frames).
        maxFrames - frameCount)") auto

declare captureLoop.simps [simp del]

definition extractFramesFromVideo :: "File \<Rightarrow> nat \<Rightarrow> frame list promise" where
  "extractFramesFromVideo videoFile maxFrames =
     (case asVideo videoFile of
        None \<Rightarrow> Rejected LoadError
      | Some v \<Rightarrow>
          if context2d v
          then captureLoop v (numDiv (duration v) maxFrames) maxFrames 0 0 []
          else Pending)"


subsection \<open>Suspicion scorer\<close>

text \<open>
  \<open>addIf c k\<close> is the statement \<^verbatim>\<open>if (c) suspicionScore += k\<close> as a summand; an
  \<open>if\<close>/\<open>else if\<close> chain of such statements is a nested conditional. \<open>rnd i\<close> is the value
  of the \<open>i\<close>-th call of \<open>Math.random()\<close> the scorer makes (counted from 0).
\<close>

abbreviation addIf :: "bool \<Rightarrow> real \<Rightarrow> real" where
  "addIf c k \<equiv> (if c then k else 0)"

definition clampScore :: "real \<Rightarrow> real" where
  "clampScore score = max 0 (min 100 score)"

definition fileSizeMB :: "nat \<Rightarrow> real" where
  "fileSizeMB sz = real sz / (1024 * 1024)"

definition averageOf :: "(DetectionAnalysis \<Rightarrow> real) \<Rightarrow> DetectionAnalysis list \<Rightarrow> real" where
  "averageOf field fas = fold (\<lambda>a sum. sum + field a) fas 0 / real (length fas)"

paragraph \<open>Version 1: images\<close>

definition filenameRule_image_v1 :: "string \<Rightarrow> real" where
  "filenameRule_image_v1 name =
     (let fileName = toLowerCase name
      in if includes_str fileName ''fake'' \<or> includes_str fileName ''generated''
            \<or> includes_str fileName ''ai'' then 60
         else if includes_str fileName ''real'' \<or> includes_str fileName ''authentic'' then - 20
         else 0)"

definition signalRules_image_v1 :: "signals \<Rightarrow> real" where
  "signalRules_image_v1 sg =
     addIf (compressionArtifacts sg > 60) 35 + addIf (compressionArtifacts sg > 80) 25
     + addIf (edgeConsistency sg < 70) 40 + addIf (edgeConsistency sg < 50) 30
     + addIf (artifactScore sg > 70) 45 + addIf (artifactScore sg > 85) 25
     + addIf (qualityScore sg < 50) 25 + addIf (qualityScore sg < 30) 35
     + addIf (faceDetectionScore sg > 80 \<or> faceDetectionScore sg < 20) 30"

definition fileSizeRule_v1 :: "nat \<Rightarrow> real" where
  "fileSizeRule_v1 sz = addIf (fileSizeMB sz > 5) 15 + addIf (fileSizeMB sz < 0.1) 20"

definition suspicionScore_image_v1 :: "(nat \<Rightarrow> real) \<Rightarrow> string \<Rightarrow> nat \<Rightarrow> image \<Rightarrow> real" where
  "suspicionScore_image_v1 rnd name sz img =
     rnd 0 * 30 + filenameRule_image_v1 name + signalRules_image_v1 (imgSignals img)
     + fileSizeRule_v1 sz + addIf (rnd 1 > 0.7) 40"

definition analyzeImage_v1 :: "(nat \<Rightarrow> real) \<Rightarrow> File \<Rightarrow> (real \<times> DetectionAnalysis) promise" where
  "analyzeImage_v1 rnd f =
     await (loadImage f) (\<lambda>img.
       let confidence = clampScore (suspicionScore_image_v1 rnd (fileName f) (fileSize f) img)
       in Resolved (confidence,
            \<lparr>faceDetection = faceDetectionScore (imgSignals img),
             temporalConsistency = 100,
             artifactDetection = artifactScore (imgSignals img),
             imageQuality = qualityScore (imgSignals img),
             neuralNetworkConfidence = confidence\<rparr>))"

paragraph \<open>Version 1: videos\<close>

definition frameSuspicion_v1 :: "real \<Rightarrow> signals \<Rightarrow> real" where
  "frameSuspicion_v1 r sg =
     r * 20 + addIf (compressionArtifacts sg > 65) 30 + addIf (artifactScore sg > 75) 35
     + addIf (qualityScore sg < 45) 25 + 15"

text \<open>
  The loop over the frames carries \<open>totalSuspicion\<close> and \<open>frameAnalyses\<close>; frame \<open>i\<close> makes
  call \<open>i + 1\<close> of \<open>Math.random()\<close>.
\<close>

definition frameLoop_v1 :: "(nat \<Rightarrow> real) \<Rightarrow> frame list \<Rightarrow> real \<times> DetectionAnalysis list" where
  "frameLoop_v1 rnd frames =
     fold (\<lambda>(i, fr) (totalSuspicion, frameAnalyses).
            let frameSuspicion = frameSuspicion_v1 (rnd (i + 1)) (frameSig fr)
            in (totalSuspicion + frameSuspicion,
                frameAnalyses @ [\<lparr>faceDetection = faceDetectionScore (frameSig fr),
                                   temporalConsistency = 0,
                                   artifactDetection = artifactScore (frameSig fr),
                                   imageQuality = qualityScore (frameSig fr),
                                   neuralNetworkConfidence = frameSuspicion\<rparr>]))
          (zip [0..<length frames] frames) (rnd 0 * 25, [])"

definition filenameRule_video_v1 :: "string \<Rightarrow> real" where
  "filenameRule_video_v1 name =
     (let fileName = toLowerCase name
      in addIf (includes_str fileName ''fake'' \<or> includes_str fileName ''generated''
                \<or> includes_str fileName ''ai'' \<or> includes_str fileName ''deepfake'') 70)"

definition totalSuspicion_video_v1 :: "(nat \<Rightarrow> real) \<Rightarrow> string \<Rightarrow> frame list \<Rightarrow> real" where
  "totalSuspicion_video_v1 rnd name frames =
     (let (totalSuspicion, frameAnalyses) = frameLoop_v1 rnd frames;
          temporalConsistency = calculateTemporalConsistency_v1 frameAnalyses
      in totalSuspicion + addIf (temporalConsistency < 80) 50 + addIf (temporalConsistency < 60) 30
         + filenameRule_video_v1 name + addIf (rnd (length frames + 1) > 0.6) 35 + 20)"

definition analyzeVideo_v1 :: "(nat \<Rightarrow> real) \<Rightarrow> File \<Rightarrow> (real \<times> DetectionAnalysis) promise" where
  "analyzeVideo_v1 rnd f =
     await (extractFramesFromVideo f 5) (\<lambda>frames.
       let frameAnalyses = snd (frameLoop_v1 rnd frames);
           avgConfidence = clampScore (totalSuspicion_video_v1 rnd (fileName f) frames
                                       / real (length frames))
       in Resolved (avgConfidence,
            \<lparr>faceDetection = averageOf faceDetection frameAnalyses,
             temporalConsistency = calculateTemporalConsistency_v1 frameAnalyses,
             artifactDetection = averageOf artifactDetection frameAnalyses,
             imageQuality = averageOf imageQuality frameAnalyses,
             neuralNetworkConfidence = avgConfidence\<rparr>))"

paragraph \<open>Version 2: images\<close>

definition filenameRule_image_v2 :: "string \<Rightarrow> real" where
  "filenameRule_image_v2 name =
     (let fileName = toLowerCase name
      in if includes_str fileName ''fake'' \<or> includes_str fileName ''generated''
            \<or> includes_str fileName ''ai'' \<or> includes_str fileName ''deepfake''
            \<or> includes_str fileName ''synthetic'' \<or> includes_str fileName ''swap'' then 85
         else if includes_str fileName ''real'' \<or> includes_str fileName ''authentic''
            \<or> includes_str fileName ''original'' \<or> includes_str fileName ''genuine'' then - 30
         else 0)"

definition signalRules_image_v2 :: "signals \<Rightarrow> real" where
  "signalRules_image_v2 sg =
     (if compressionArtifacts sg > 75 then 45 else if compressionArtifacts sg > 50 then 25 else 0)
     + (if edgeConsistency sg < 60 then 50 else if edgeConsistency sg < 80 then 25 else 0)
     + (if artifactScore sg > 80 then 60 else if artifactScore sg > 60 then 35 else 0)
     + (if qualityScore sg < 40 then 30 else if qualityScore sg > 90 then 20 else 0)
     + addIf (colorConsistency sg < 70) 40
     + addIf (frequencyAnalysis sg > 70) 35
     + addIf (faceDetectionScore sg > 85 \<or> faceDetectionScore sg < 30) 40"

text \<open>
  \<open>aspectRatio = img.width / img.height\<close>. For a height of 0 the quotient is \<open>Infinity\<close>
  (above every bound) when the width is positive and \<open>NaN\<close> (no comparison holds) when the
  width is 0 too.
\<close>

definition aspectUnusual_v2 :: "nat \<Rightarrow> nat \<Rightarrow> bool" where
  "aspectUnusual_v2 w h =
     (if h = 0 then w > 0 else real w / real h < 0.7 \<or> real w / real h > 1.5)"

definition metadataRules_image_v2 :: "nat \<Rightarrow> image \<Rightarrow> real" where
  "metadataRules_image_v2 sz img =
     (if fileSizeMB sz > 10 then 20 else if fileSizeMB sz < 0.05 then 25 else 0)
     + addIf (imgWidth img * imgHeight img > 2000000) 15
     + addIf (aspectUnusual_v2 (imgWidth img) (imgHeight img)) 10"

definition suspicionScore_image_v2 :: "(nat \<Rightarrow> real) \<Rightarrow> string \<Rightarrow> nat \<Rightarrow> image \<Rightarrow> real" where
  "suspicionScore_image_v2 rnd name sz img =
     0 + filenameRule_image_v2 name + signalRules_image_v2 (imgSignals img)
     + metadataRules_image_v2 sz img + (rnd 0 - 0.5) * 20"

definition analyzeImage_v2 :: "(nat \<Rightarrow> real) \<Rightarrow> File \<Rightarrow> (real \<times> DetectionAnalysis) promise" where
  "analyzeImage_v2 rnd f =
     await (loadImage f) (\<lambda>img.
       let confidence = clampScore (suspicionScore_image_v2 rnd (fileName f) (fileSize f) img)
       in Resolved (confidence,
            \<lparr>faceDetection = faceDetectionScore (imgSignals img),
             temporalConsistency = 100,
             artifactDetection = artifactScore (imgSignals img),
             imageQuality = qualityScore (imgSignals img),
             neuralNetworkConfidence = confidence\<rparr>))"

paragraph \<open>Version 2: videos\<close>

definition frameSuspicion_v2 :: "signals \<Rightarrow> real" where
  "frameSuspicion_v2 sg =
     0 + addIf (compressionArtifacts sg > 70) 40 + addIf (artifactScore sg > 75) 45
     + addIf (qualityScore sg < 50) 30 + addIf (colorConsistency sg < 65) 35 + 10"

definition frameLoop_v2 :: "frame list \<Rightarrow> real \<times> DetectionAnalysis list" where
  "frameLoop_v2 frames =
     fold (\<lambda>fr (totalSuspicion, frameAnalyses).
            let frameSuspicion = frameSuspicion_v2 (frameSig fr)
            in (totalSuspicion + frameSuspicion,
                frameAnalyses @ [\<lparr>faceDetection = faceDetectionScore (frameSig fr),
                                   temporalConsistency = 0,
                                   artifactDetection = artifactScore (frameSig fr),
                                   imageQuality = qualityScore (frameSig fr),
                                   neuralNetworkConfidence = frameSuspicion\<rparr>]))
          frames (0, [])"

definition filenameRule_video_v2 :: "string \<Rightarrow> real" where
  "filenameRule_video_v2 name =
     (let fileName = toLowerCase name
      in if includes_str fileName ''fake'' \<or> includes_str fileName ''generated''
            \<or> includes_str fileName ''ai'' \<or> includes_str fileName ''deepfake''
            \<or> includes_str fileName ''synthetic'' \<or> includes_str fileName ''swap'' then 80
         else if includes_str fileName ''real'' \<or> includes_str fileName ''authentic'' then - 25
         else 0)"

definition durationRule_v2 :: "number \<Rightarrow> real" where
  "durationRule_v2 videoDuration =
     (if numLess videoDuration 5 then 25 else if numGreater videoDuration 60 then - 15 else 0)"

definition totalSuspicion_video_v2 ::
  "(nat \<Rightarrow> real) \<Rightarrow> string \<Rightarrow> number \<Rightarrow> frame list \<Rightarrow> real" where
  "totalSuspicion_video_v2 rnd name videoDuration frames =
     (let (totalSuspicion, frameAnalyses) = frameLoop_v2 frames;
          temporalConsistency = calculateTemporalConsistency_v2 frameAnalyses
      in totalSuspicion + addIf (temporalConsistency < 70) 60 + addIf (temporalConsistency < 50) 40
         + filenameRule_video_v2 name + durationRule_v2 videoDuration + 15
         + (rnd 0 - 0.5) * 15)"

definition analyzeVideo_v2 :: "(nat \<Rightarrow> real) \<Rightarrow> File \<Rightarrow> (real \<times> DetectionAnalysis) promise" where
  "analyzeVideo_v2 rnd f =
     await (extractFramesFromVideo f 5) (\<lambda>frames.
       let frameAnalyses = snd (frameLoop_v2 frames);
           avgConfidence = clampScore (totalSuspicion_video_v2 rnd (fileName f)
                                         (getVideoDuration f) frames
                                       / real (length frames))
       in Resolved (avgConfidence,
            \<lparr>faceDetection = averageOf faceDetection frameAnalyses,
             temporalConsistency = calculateTemporalConsistency_v2 frameAnalyses,
             artifactDetection = averageOf artifactDetection frameAnalyses,
             imageQuality = averageOf imageQuality frameAnalyses,
             neuralNetworkConfidence = avgConfidence\<rparr>))"

paragraph \<open>Version 3: images\<close>

definition filenameRule_image_v3 :: "string \<Rightarrow> real" where
  "filenameRule_image_v3 name =
     (let fileName = toLowerCase name
      in (if includes_str fileName ''deepfake'' \<or> includes_str fileName ''fake''
             \<or> includes_str fileName ''generated'' then 70
          else if includes_str fileName ''morphed'' \<or> includes_str fileName ''manipulated''
             \<or> includes_str fileName ''edited'' then 60
          else if includes_str fileName ''ai'' \<or> includes_str fileName ''synthetic'' then 50
          else 0)
         + addIf (includes_str fileName ''real'' \<or> includes_str fileName ''authentic''
                  \<or> includes_str fileName ''original'' \<or> includes_str fileName ''genuine''
                  \<or> includes_str fileName ''photo'' \<or> includes_str fileName ''pic'') (- 20))"

definition anomalyRules_image_v3 :: "signals \<Rightarrow> real" where
  "anomalyRules_image_v3 sg =
     (if compressionArtifacts sg > 85 then 35 else if compressionArtifacts sg > 95 then 50 else 0)
     + (if edgeConsistency sg < 40 then 45 else if edgeConsistency sg < 25 then 60 else 0)
     + (if artifactScore sg > 90 then 40 else if artifactScore sg > 95 then 55 else 0)
     + (if colorConsistency sg < 50 then 30 else if colorConsistency sg < 30 then 45 else 0)
     + (if frequencyAnalysis sg > 85 then 25 else if frequencyAnalysis sg > 95 then 40 else 0)
     + addIf (faceDetectionScore sg > 95 \<or> faceDetectionScore sg < 15) 30"

definition anomalyCount_v3 :: "signals \<Rightarrow> nat" where
  "anomalyCount_v3 sg =
     (if compressionArtifacts sg > 80 then 1 else 0) + (if edgeConsistency sg < 50 then 1 else 0)
     + (if artifactScore sg > 85 then 1 else 0) + (if colorConsistency sg < 60 then 1 else 0)
     + (if frequencyAnalysis sg > 80 then 1 else 0)"

definition normalityRules_image_v3 :: "signals \<Rightarrow> real" where
  "normalityRules_image_v3 sg =
     addIf (qualityScore sg > 60 \<and> qualityScore sg < 90) (- 10)
     + addIf (edgeConsistency sg > 70) (- 15)
     + addIf (colorConsistency sg > 75) (- 10)"

definition aspectNormal_v3 :: "nat \<Rightarrow> nat \<Rightarrow> bool" where
  "aspectNormal_v3 w h = (h \<noteq> 0 \<and> real w / real h > 0.5 \<and> real w / real h < 2.0)"

definition metadataRules_image_v3 :: "nat \<Rightarrow> image \<Rightarrow> real" where
  "metadataRules_image_v3 sz img =
     addIf (fileSizeMB sz > 0.1 \<and> fileSizeMB sz < 5) (- 5)
     + addIf (imgWidth img * imgHeight img > 100000 \<and> imgWidth img * imgHeight img < 5000000) (- 5)
     + addIf (aspectNormal_v3 (imgWidth img) (imgHeight img)) (- 5)"

definition suspicionScore_image_v3 :: "(nat \<Rightarrow> real) \<Rightarrow> string \<Rightarrow> nat \<Rightarrow> image \<Rightarrow> real" where
  "suspicionScore_image_v3 rnd name sz img =
     15 + filenameRule_image_v3 name + anomalyRules_image_v3 (imgSignals img)
     + addIf (anomalyCount_v3 (imgSignals img) \<ge> 3) 25
     + normalityRules_image_v3 (imgSignals img)
     + metadataRules_image_v3 sz img + (rnd 0 - 0.5) * 8"

definition analyzeImage_v3 :: "(nat \<Rightarrow> real) \<Rightarrow> File \<Rightarrow> (real \<times> DetectionAnalysis) promise" where
  "analyzeImage_v3 rnd f =
     await (loadImage f) (\<lambda>img.
       let confidence = clampScore (suspicionScore_image_v3 rnd (fileName f) (fileSize f) img)
       in Resolved (confidence,
            \<lparr>faceDetection = faceDetectionScore (imgSignals img),
             temporalConsistency = 100,
             artifactDetection = artifactScore (imgSignals img),
             imageQuality = qualityScore (imgSignals img),
             neuralNetworkConfidence = confidence\<rparr>))"

paragraph \<open>Version 3: videos\<close>

definition frameSuspicion_v3 :: "signals \<Rightarrow> real" where
  "frameSuspicion_v3 sg =
     0 + addIf (compressionArtifacts sg > 90) 25 + addIf (artifactScore sg > 90) 30
     + addIf (qualityScore sg < 30) 20 + addIf (colorConsistency sg < 40) 25"

definition frameLoop_v3 :: "frame list \<Rightarrow> real \<times> DetectionAnalysis list" where
  "frameLoop_v3 frames =
     fold (\<lambda>fr (totalSuspicion, frameAnalyses).
            let frameSuspicion = frameSuspicion_v3 (frameSig fr)
            in (totalSuspicion + frameSuspicion,
                frameAnalyses @ [\<lparr>faceDetection = faceDetectionScore (frameSig fr),
                                   temporalConsistency = 0,
                                   artifactDetection = artifactScore (frameSig fr),
                                   imageQuality = qualityScore (frameSig fr),
                                   neuralNetworkConfidence = frameSuspicion\<rparr>]))
          frames (10, [])"

definition filenameRule_video_v3 :: "string \<Rightarrow> real" where
  "filenameRule_video_v3 name =
     (let fileName = toLowerCase name
      in if includes_str fileName ''deepfake'' \<or> includes_str fileName ''fake''
            \<or> includes_str fileName ''generated'' then 60
         else if includes_str fileName ''morphed'' \<or> includes_str fileName ''manipulated'' then 50
         else if includes_str fileName ''real'' \<or> includes_str fileName ''authentic''
            \<or> includes_str fileName ''original'' then - 15
         else 0)"

definition durationRule_v3 :: "number \<Rightarrow> real" where
  "durationRule_v3 videoDuration =
     (if numLess videoDuration 2 then 15 else if numGreater videoDuration 30 then - 10 else 0)"

definition totalSuspicion_video_v3 ::
  "(nat \<Rightarrow> real) \<Rightarrow> string \<Rightarrow> number \<Rightarrow> frame list \<Rightarrow> real" where
  "totalSuspicion_video_v3 rnd name videoDuration frames =
     (let (totalSuspicion, frameAnalyses) = frameLoop_v3 frames;
          temporalConsistency = calculateTemporalConsistency_v3 frameAnalyses
      in totalSuspicion + addIf (temporalConsistency < 40) 50 + addIf (temporalConsistency < 25) 35
         + filenameRule_video_v3 name + durationRule_v3 videoDuration
         + (rnd 0 - 0.5) * 10)"

definition analyzeVideo_v3 :: "(nat \<Rightarrow> real) \<Rightarrow> File \<Rightarrow> (real \<times> DetectionAnalysis) promise" where
  "analyzeVideo_v3 rnd f =
     await (extractFramesFromVideo f 5) (\<lambda>frames.
       let frameAnalyses = snd (frameLoop_v3 frames);
           avgConfidence = clampScore (totalSuspicion_video_v3 rnd (fileName f)
                                         (getVideoDuration f) frames
                                       / real (length frames))
       in Resolved (avgConfidence,
            \<lparr>faceDetection = averageOf faceDetection frameAnalyses,
             temporalConsistency = calculateTemporalConsistency_v3 frameAnalyses,
             artifactDetection = averageOf artifactDetection frameAnalyses,
             imageQuality = averageOf imageQuality frameAnalyses,
             neuralNetworkConfidence = avgConfidence\<rparr>))"

subsection \<open>The detection entry point\<close>

text \<open>
  \<open>detectDeepfake\<close> is the same in the three versions but for the scorers it calls, the
  threshold of \<open>isDeepfake\<close> and the threat ladder. \<open>t0\<close> and \<open>t1\<close> are the two readings of
  \<open>performance.now()\<close>.
\<close>

datatype version = V1 | V2 | V3

fun analyzeImage :: "version \<Rightarrow> (nat \<Rightarrow> real) \<Rightarrow> File \<Rightarrow> (real \<times> DetectionAnalysis) promise" where
  "analyzeImage V1 = analyzeImage_v1"
| "analyzeImage V2 = analyzeImage_v2"
| "analyzeImage V3 = analyzeImage_v3"

fun analyzeVideo :: "version \<Rightarrow> (nat \<Rightarrow> real) \<Rightarrow> File \<Rightarrow> (real \<times> DetectionAnalysis) promise" where
  "analyzeVideo V1 = analyzeVideo_v1"
| "analyzeVideo V2 = analyzeVideo_v2"
| "analyzeVideo V3 = analyzeVideo_v3"

fun decisionThreshold :: "version \<Rightarrow> real" where
  "decisionThreshold V1 = 50"
| "decisionThreshold V2 = 60"
| "decisionThreshold V3 = 75"

fun calculateThreatLevel :: "version \<Rightarrow> real \<Rightarrow> DetectionAnalysis \<Rightarrow> threat" where
  "calculateThreatLevel V1 = calculateThreatLevel_v1"
| "calculateThreatLevel V2 = calculateThreatLevel_v2"
| "calculateThreatLevel V3 = calculateThreatLevel_v3"

definition detectDeepfake ::
  "version \<Rightarrow> ModelLoader \<Rightarrow> real \<Rightarrow> real \<Rightarrow> (nat \<Rightarrow> real) \<Rightarrow> File \<Rightarrow> DeepfakeDetectionResult promise" where
  "detectDeepfake ver modelLoader t0 t1 rnd f =
     (if \<not> isModelsReady modelLoader then Rejected ModelsNotInitialized
      else
        await (if startsWith (fileType f) ''image/'' then analyzeImage ver rnd f
               else if startsWith (fileType f) ''video/'' then analyzeVideo ver rnd f
               else Rejected UnsupportedFileType)
          (\<lambda>(conf, an).
             Resolved \<lparr>isDeepfake = conf > decisionThreshold ver,
                       confidence = conf,
                       threatLevel = calculateThreatLevel ver conf an,
                       analysis = an,
                       processingTime = t1 - t0\<rparr>))"

subsection \<open>Pixel buffers\<close>

text \<open>
  \<open>ImageData\<close>: the dimensions and the flat \<open>Uint8ClampedArray\<close> of interleaved R, G, B, A
  samples. The browser hands out buffers with \<open>length data = 4 * width * height\<close> and
  positive dimensions; the extractors read by index, and \<open>channelAt\<close> is such a read: a
  read past the end gives \<open>undefined\<close>, which is \<open>NaN\<close> in arithmetic and fails every
  comparison. An extractor receives \<open>None\<close> in place of the buffer when the canvas gives
  no 2D context; it then returns a random value, built from the draw \<open>rnd\<close>.
\<close>

record ImageData =
  width :: nat
  height :: nat
  data :: "8 word list"

definition channelAt :: "ImageData \<Rightarrow> nat \<Rightarrow> real option" where
  "channelAt d i = (if i < length (data d) then Some (real (unat (data d ! i))) else None)"

definition wellFormed :: "ImageData \<Rightarrow> bool" where
  "wellFormed d =
     (0 < width d \<and> 0 < height d \<and> length (data d) = 4 * width d * height d)"

subsection \<open>Face and skin ratio\<close>

text \<open>
  The three tests of \<open>isSkinTone\<close> on the samples of a pixel. The unary minus of
  \<open>-0.169 * r\<close> applies to the literal; a sum of several terms is evaluated from the left.
\<close>

definition rgbSkin :: "real \<Rightarrow> real \<Rightarrow> real \<Rightarrow> bool" where
  "rgbSkin r g b =
     (r > 95 \<and> g > 40 \<and> b > 20
      \<and> fl (max r (max g b) - min r (min g b)) > 15
      \<and> \<bar>fl (r - g)\<bar> > 15 \<and> r > g \<and> r > b)"

definition ycbcrSkin :: "real \<Rightarrow> real \<Rightarrow> real \<Rightarrow> bool" where
  "ycbcrSkin r g b =
     (let cb = fl (fl (fl (fl (- fl 0.169 * r) - fl (fl 0.331 * g)) + fl (0.5 * b)) + 128);
          cr = fl (fl (fl (fl (0.5 * r) - fl (fl 0.419 * g)) - fl (fl 0.081 * b)) + 128)
      in cb \<ge> 77 \<and> cb \<le> 127 \<and> cr \<ge> 133 \<and> cr \<le> 173)"

text \<open>
  The remainder operator \<open>%\<close> of JavaScript: the quotient is truncated towards 0, and the
  remainder of two doubles is a double.
\<close>

definition jsRem :: "real \<Rightarrow> real \<Rightarrow> real" where
  "jsRem a b = a - b * of_int (if a / b \<ge> 0 then \<lfloor>a / b\<rfloor> else \<lceil>a / b\<rceil>)"

definition hsvSkin :: "real \<Rightarrow> real \<Rightarrow> real \<Rightarrow> bool" where
  "hsvSkin r g b =
     (let mx = max r (max g b);
          mn = min r (min g b);
          delta = fl (mx - mn);
          v = fl (mx / 255);
          s = (if mx = 0 then 0 else fl (delta / mx));
          h0 = (if delta \<noteq> 0
                then (if mx = r then jsRem (fl (fl (g - b) / delta)) 6
                      else if mx = g then fl (fl (fl (b - r) / delta) + 2)
                      else fl (fl (fl (r - g) / delta) + 4))
                else 0);
          h1 = fl (h0 * 60);
          h = (if h1 < 0 then fl (h1 + 360) else h1)
      in (h \<ge> 0 \<and> h \<le> 50) \<and> s \<ge> fl 0.23 \<and> s \<le> fl 0.68 \<and> v \<ge> fl 0.35 \<and> v \<le> fl 0.95)"

definition isSkinTone_v2 :: "real \<Rightarrow> real \<Rightarrow> real \<Rightarrow> bool" where
  "isSkinTone_v2 r g b = (rgbSkin r g b \<or> ycbcrSkin r g b \<or> hsvSkin r g b)"

definition isSkinTone_v3 :: "real \<Rightarrow> real \<Rightarrow> real \<Rightarrow> bool" where
  "isSkinTone_v3 r g b = (rgbSkin r g b \<or> ycbcrSkin r g b)"

text \<open>
  The call \<open>isSkinTone(data[i], data[i + 1], data[i + 2])\<close>. With an \<open>undefined\<close> channel
  every one of the three tests compares a \<open>NaN\<close> and fails.
\<close>

definition skinAt :: "(real \<Rightarrow> real \<Rightarrow> real \<Rightarrow> bool) \<Rightarrow> ImageData \<Rightarrow> nat \<Rightarrow> bool" where
  "skinAt isSkinTone d i =
     (case (channelAt d i, channelAt d (i + 1), channelAt d (i + 2)) of
        (Some r, Some g, Some b) \<Rightarrow> isSkinTone r g b
      | _ \<Rightarrow> False)"

text \<open>
  The test \<open>distFromCenter < faceRegionRadius\<close>. \<open>a ** 2\<close> is the rounded square of \<open>a\<close>:
  the two differences are multiples of one half, whose squares are doubles, so that
  every implementation of \<open>**\<close> returns the square itself.
\<close>

definition inFaceRegion :: "ImageData \<Rightarrow> nat \<Rightarrow> nat \<Rightarrow> bool" where
  "inFaceRegion d x y =
     (let centerX = fl (real (width d) / 2);
          centerY = fl (real (height d) / 2);
          faceRegionRadius = fl (real (min (width d) (height d)) / 4);
          distFromCenter = fl (sqrt (fl (fl ((fl (real x - centerX))\<^sup>2)
                                         + fl ((fl (real y - centerY))\<^sup>2))))
      in distFromCenter < faceRegionRadius)"

text \<open>The two nested loops over \<open>y\<close> and \<open>x\<close>, carrying \<open>skinPixels\<close> and \<open>faceRegionPixels\<close>.\<close>

definition faceLoop :: "(real \<Rightarrow> real \<Rightarrow> real \<Rightarrow> bool) \<Rightarrow> ImageData \<Rightarrow> nat \<times> nat" where
  "faceLoop isSkinTone d =
     fold (\<lambda>y. fold (\<lambda>x (skinPixels, faceRegionPixels).
                   let i = (y * width d + x) * 4
                   in if inFaceRegion d x y
                      then (if skinAt isSkinTone d i then skinPixels + 1 else skinPixels,
                            faceRegionPixels + 1)
                      else (skinPixels, faceRegionPixels))
                 [0..<width d])
       [0..<height d] (0, 0)"

definition performFaceAnalysis_v2 :: "real \<Rightarrow> ImageData option \<Rightarrow> real" where
  "performFaceAnalysis_v2 rnd canvas =
     (case canvas of
        None \<Rightarrow> fl (50 + fl (rnd * 30))
      | Some d \<Rightarrow>
          let (skinPixels, faceRegionPixels) = faceLoop isSkinTone_v2 d;
              skinRatio = (if faceRegionPixels > 0
                           then fl (real skinPixels / real faceRegionPixels) else 0)
          in min 100 (fl (skinRatio * 200)))"

definition performFaceAnalysis_v3 :: "real \<Rightarrow> ImageData option \<Rightarrow> real" where
  "performFaceAnalysis_v3 rnd canvas =
     (case canvas of
        None \<Rightarrow> fl (65 + fl (rnd * 20))
      | Some d \<Rightarrow>
          let (skinPixels, faceRegionPixels) = faceLoop isSkinTone_v3 d;
              skinRatio = (if faceRegionPixels > 0
                           then fl (real skinPixels / real faceRegionPixels) else 0)
          in min 100 (max 30 (fl (fl (skinRatio * 150) + 20))))"

text \<open>
  The quantities the description of the extractor speaks of: the pixels of the buffer,
  the number of them inside the circular region, the number of those classified as
  skin, and their quotient as the source forms it.
\<close>

definition pixelCoords :: "ImageData \<Rightarrow> (nat \<times> nat) list" where
  "pixelCoords d = concat (map (\<lambda>y. map (\<lambda>x. (x, y)) [0..<width d]) [0..<height d])"

definition regionPixels :: "ImageData \<Rightarrow> nat" where
  "regionPixels d = length (filter (\<lambda>(x, y). inFaceRegion d x y) (pixelCoords d))"

definition skinPixels :: "(real \<Rightarrow> real \<Rightarrow> real \<Rightarrow> bool) \<Rightarrow> ImageData \<Rightarrow> nat" where
  "skinPixels isSkinTone d =
     length (filter (\<lambda>(x, y). inFaceRegion d x y \<and> skinAt isSkinTone d ((y * width d + x) * 4))
               (pixelCoords d))"

definition skinRatio :: "(real \<Rightarrow> real \<Rightarrow> real \<Rightarrow> bool) \<Rightarrow> ImageData \<Rightarrow> real" where
  "skinRatio isSkinTone d =
     (if regionPixels d = 0 then 0
      else fl (real (skinPixels isSkinTone d) / real (regionPixels d)))"

subsection \<open>Color consistency\<close>

text \<open>
  The loop \<^verbatim>\<open>for (let v = from; v < bound; v++)\<close> over a number that need not be an
  integer: the quadrants start at half the width and half the height.
\<close>

function forFrom :: "real \<Rightarrow> real \<Rightarrow> (real \<Rightarrow> 's \<Rightarrow> 's) \<Rightarrow> 's \<Rightarrow> 's" where
  "forFrom v bound body s = (if v < bound then forFrom (v + 1) bound body (body v s) else s)"
  by pat_completeness auto
termination
proof (relation "measure (\<lambda>(v, bound, body, s). nat \<lceil>bound - v\<rceil>)")
  show "wf (measure (\<lambda>(v, bound, body, s). nat \<lceil>bound - v\<rceil>))" by simp
next
  fix v bound :: real and body :: "real \<Rightarrow> 's \<Rightarrow> 's" and s :: 's
  assume "v < bound"
  then have "0 < \<lceil>bound - v\<rceil>" by simp
  moreover have "\<lceil>bound - (v + 1)\<rceil> = \<lceil>bound - v\<rceil> - 1"
    by (simp add: algebra_simps) linarith
  ultimately show "((v + 1, bound, body, body v s), v, bound, body, s)
      \<in> measure (\<lambda>(v, bound, body, s). nat \<lceil>bound - v\<rceil>)"
    by simp
qed

declare forFrom.simps [simp del]

text \<open>
  Sums and differences of values that may be \<open>NaN\<close> (\<open>None\<close>). \<open>meanN\<close> is \<open>sum / count\<close>:
  the count is 0 only when the loops visited no pixel, and then the sum is 0 and the
  quotient \<open>0 / 0\<close> is \<open>NaN\<close>.
\<close>

fun addN :: "real option \<Rightarrow> real option \<Rightarrow> real option" where
  "addN (Some a) (Some b) = Some (a + b)"
| "addN _ _ = None"

fun absDiffN :: "real option \<Rightarrow> real option \<Rightarrow> real option" where
  "absDiffN (Some a) (Some b) = Some \<bar>a - b\<bar>"
| "absDiffN _ _ = None"

definition meanN :: "real option \<Rightarrow> nat \<Rightarrow> real option" where
  "meanN acc count =
     (case acc of None \<Rightarrow> None
      | Some v \<Rightarrow> if count = 0 then None else Some (v / real count))"

record region =
  rx :: real
  ry :: real
  rw :: real
  rh :: real

definition regions :: "ImageData \<Rightarrow> region list" where
  "regions d =
     [\<lparr>rx = 0, ry = 0, rw = real (width d) / 2, rh = real (height d) / 2\<rparr>,
      \<lparr>rx = real (width d) / 2, ry = 0, rw = real (width d) / 2, rh = real (height d) / 2\<rparr>,
      \<lparr>rx = 0, ry = real (height d) / 2, rw = real (width d) / 2, rh = real (height d) / 2\<rparr>,
      \<lparr>rx = real (width d) / 2, ry = real (height d) / 2,
        rw = real (width d) / 2, rh = real (height d) / 2\<rparr>]"

definition regionStep ::
  "ImageData \<Rightarrow> real \<Rightarrow> real \<Rightarrow> real option \<times> real option \<times> real option \<times> nat
     \<Rightarrow> real option \<times> real option \<times> real option \<times> nat" where
  "regionStep d y x = (\<lambda>(rSum, gSum, bSum, count).
     let idx = (nat \<lfloor>y\<rfloor> * width d + nat \<lfloor>x\<rfloor>) * 4
     in (addN rSum (channelAt d idx), addN gSum (channelAt d (idx + 1)),
         addN bSum (channelAt d (idx + 2)), count + 1))"

definition regionStats :: "ImageData \<Rightarrow> region \<Rightarrow> real option \<times> real option \<times> real option" where
  "regionStats d reg =
     (let (rSum, gSum, bSum, count) =
            forFrom (ry reg) (ry reg + rh reg)
              (\<lambda>y. forFrom (rx reg) (rx reg + rw reg) (regionStep d y))
              (Some 0, Some 0, Some 0, 0)
      in (meanN rSum count, meanN gSum count, meanN bSum count))"

definition statDiff ::
  "real option \<times> real option \<times> real option \<Rightarrow> real option \<times> real option \<times> real option
     \<Rightarrow> real option" where
  "statDiff a b =
     (case (a, b) of
        ((ar, ag, ab), (br, bg, bb)) \<Rightarrow>
          addN (addN (absDiffN ar br) (absDiffN ag bg)) (absDiffN ab bb))"

text \<open>The loops \<open>i\<close> and \<open>j = i + 1, ...\<close> over the pairs of regions, carrying \<open>totalDifference\<close>.\<close>

definition totalDifference ::
  "(real option \<times> real option \<times> real option) list \<Rightarrow> real option" where
  "totalDifference stats =
     fold (\<lambda>i. fold (\<lambda>j tot. addN tot (statDiff (stats ! i) (stats ! j)))
                 [i + 1..<length stats])
       [0..<length stats] (Some 0)"

definition analyzeColorConsistency_v2 :: "real \<Rightarrow> ImageData option \<Rightarrow> real option" where
  "analyzeColorConsistency_v2 rnd canvas =
     (case canvas of
        None \<Rightarrow> Some (60 + rnd * 30)
      | Some d \<Rightarrow>
          map_option (\<lambda>tot. let avgDifference = tot / 6 in max 0 (100 - avgDifference / 10))
            (totalDifference (map (regionStats d) (regions d))))"

definition analyzeColorConsistency_v3 :: "real \<Rightarrow> ImageData option \<Rightarrow> real option" where
  "analyzeColorConsistency_v3 rnd canvas =
     (case canvas of
        None \<Rightarrow> Some (75 + rnd * 15)
      | Some d \<Rightarrow>
          map_option (\<lambda>tot. let avgDifference = tot / 6 in max 20 (100 - avgDifference / 15))
            (totalDifference (map (regionStats d) (regions d))))"

text \<open>A buffer filled with one colour: every pixel has the same R, G and B samples.\<close>

definition uniformColor :: "ImageData \<Rightarrow> 8 word \<Rightarrow> 8 word \<Rightarrow> 8 word \<Rightarrow> bool" where
  "uniformColor d r g b =
     (\<forall>p < width d * height d.
        data d ! (4 * p) = r \<and> data d ! (4 * p + 1) = g \<and> data d ! (4 * p + 2) = b)"

text \<open>
  The invariant of the loops of \<open>regionStats\<close> on a buffer of one colour: each sum is
  the count times the sample of that colour.
\<close>

definition uniformAcc ::
  "real \<Rightarrow> real \<Rightarrow> real \<Rightarrow> real option \<times> real option \<times> real option \<times> nat \<Rightarrow> bool" where
  "uniformAcc r g b = (\<lambda>(rSum, gSum, bSum, count).
     rSum = Some (real count * r) \<and> gSum = Some (real count * g) \<and> bSum = Some (real count * b))"

subsection \<open>Edge consistency\<close>

text \<open>
  The sample an edge detector reads at a pixel index: the red channel in version 1, the
  grayscale projection in versions 2 and 3.
\<close>

definition redAt :: "ImageData \<Rightarrow> nat \<Rightarrow> real option" where
  "redAt d pixelIdx = channelAt d pixelIdx"

definition grayAt :: "ImageData \<Rightarrow> nat \<Rightarrow> real option" where
  "grayAt d pixelIdx =
     (case (channelAt d pixelIdx, channelAt d (pixelIdx + 1), channelAt d (pixelIdx + 2)) of
        (Some r, Some g, Some b) \<Rightarrow>
          Some (fl (fl (fl (fl 0.299 * r) + fl (fl 0.587 * g)) + fl (fl 0.114 * b)))
      | _ \<Rightarrow> None)"

text \<open>
  The 3 by 3 neighbourhood of an interior pixel, row by row (\<open>dy\<close> and \<open>dx\<close> from -1 to
  1); the main loops run over \<open>x \<ge> 1\<close> and \<open>y \<ge> 1\<close>, so no coordinate is negative.
\<close>

definition neighbourhood ::
  "(ImageData \<Rightarrow> nat \<Rightarrow> real option) \<Rightarrow> ImageData \<Rightarrow> nat \<Rightarrow> nat \<Rightarrow> real option list" where
  "neighbourhood sample d x y =
     [sample d ((nat (int y + dy) * width d + nat (int x + dx)) * 4).
        dy \<leftarrow> [- 1, 0, 1], dx \<leftarrow> [- 1, 0, 1]]"

text \<open>The two Sobel sums: six rounded products, added from the left.\<close>

definition sobelX :: "real option list \<Rightarrow> real option" where
  "sobelX pixels =
     (case (pixels ! 0, pixels ! 2, pixels ! 3, pixels ! 5, pixels ! 6, pixels ! 8) of
        (Some p0, Some p2, Some p3, Some p5, Some p6, Some p8) \<Rightarrow>
          Some (fl (fl (fl (fl (fl (fl (- 1 * p0) + fl (1 * p2)) + fl (- 2 * p3))
                            + fl (2 * p5)) + fl (- 1 * p6)) + fl (1 * p8)))
      | _ \<Rightarrow> None)"

definition sobelY :: "real option list \<Rightarrow> real option" where
  "sobelY pixels =
     (case (pixels ! 0, pixels ! 1, pixels ! 2, pixels ! 6, pixels ! 7, pixels ! 8) of
        (Some p0, Some p1, Some p2, Some p6, Some p7, Some p8) \<Rightarrow>
          Some (fl (fl (fl (fl (fl (fl (- 1 * p0) + fl (- 2 * p1)) + fl (- 1 * p2))
                            + fl (1 * p6)) + fl (2 * p7)) + fl (1 * p8)))
      | _ \<Rightarrow> None)"

text \<open>
  The gradient of a neighbourhood; \<open>None\<close> when \<open>sobelX\<close> or \<open>sobelY\<close> is \<open>NaN\<close>, and then
  the magnitude is \<open>NaN\<close> and the test \<open>magnitude > threshold\<close> fails.
\<close>

definition gradient :: "real option list \<Rightarrow> (real \<times> real) option" where
  "gradient pixels =
     (case (sobelX pixels, sobelY pixels) of
        (Some sx, Some sy) \<Rightarrow> Some (sx, sy)
      | _ \<Rightarrow> None)"

definition magnitude :: "real \<times> real \<Rightarrow> real" where
  "magnitude g = (case g of (sx, sy) \<Rightarrow> fl (sqrt (fl (fl (sx * sx) + fl (sy * sy)))))"

definition isEdge :: "real \<Rightarrow> (real \<times> real) option \<Rightarrow> bool" where
  "isEdge threshold g = (case g of None \<Rightarrow> False | Some v \<Rightarrow> magnitude v > threshold)"

text \<open>
  The angle of a gradient. \<open>Math.atan2\<close> returns an approximation of the angle that the
  language leaves to the implementation; it is taken to be the double nearest to the
  angle. \<open>Math.PI\<close> is the double nearest to \<open>pi\<close>. The angles are read only by the
  consistency tests of versions 1 and 2.
\<close>

definition atan2 :: "real \<Rightarrow> real \<Rightarrow> real" where
  "atan2 y x =
     fl (if x > 0 then arctan (y / x)
         else if x < 0 \<and> y \<ge> 0 then arctan (y / x) + pi
         else if x < 0 \<and> y < 0 then arctan (y / x) - pi
         else if y > 0 then pi / 2
         else if y < 0 then - (pi / 2)
         else 0)"

text \<open>
  The two nested loops over the interior pixels, carrying \<open>consistentEdges\<close> and
  \<open>totalEdges\<close>. \<open>edge x y\<close> is the test \<open>magnitude > threshold\<close> at the pixel and
  \<open>consistent x y\<close> the test that guards \<open>consistentEdges++\<close>.
\<close>

definition edgeLoop :: "(nat \<Rightarrow> nat \<Rightarrow> bool) \<Rightarrow> (nat \<Rightarrow> nat \<Rightarrow> bool) \<Rightarrow> ImageData \<Rightarrow> nat \<times> nat" where
  "edgeLoop edge consistent d =
     fold (\<lambda>y. fold (\<lambda>x (consistentEdges, totalEdges).
                   if edge x y
                   then (if consistent x y then consistentEdges + 1 else consistentEdges,
                         totalEdges + 1)
                   else (consistentEdges, totalEdges))
                 [1..<width d - 1])
       [1..<height d - 1] (0, 0)"

paragraph \<open>Version 1\<close>

definition isEdge_v1 :: "ImageData \<Rightarrow> nat \<Rightarrow> nat \<Rightarrow> bool" where
  "isEdge_v1 d x y = isEdge 50 (gradient (neighbourhood redAt d x y))"

definition edgeConsistent_v1 :: "ImageData \<Rightarrow> nat \<Rightarrow> nat \<Rightarrow> bool" where
  "edgeConsistent_v1 d x y =
     (case gradient (neighbourhood redAt d x y) of
        None \<Rightarrow> False
      | Some (sx, sy) \<Rightarrow>
          let angle = atan2 sy sx
          in \<bar>angle\<bar> < fl (fl pi / 4) \<or> \<bar>angle\<bar> > fl (fl (3 * fl pi) / 4))"

definition analyzeEdgeConsistency_v1 :: "real \<Rightarrow> ImageData option \<Rightarrow> real" where
  "analyzeEdgeConsistency_v1 rnd canvas =
     (case canvas of
        None \<Rightarrow> fl (rnd * 100)
      | Some d \<Rightarrow>
          let (consistentEdges, totalEdges) = edgeLoop (isEdge_v1 d) (edgeConsistent_v1 d) d
          in if totalEdges > 0
             then fl (fl (real consistentEdges / real totalEdges) * 100) else 50)"

paragraph \<open>Version 2\<close>

definition isEdge_v2 :: "ImageData \<Rightarrow> nat \<Rightarrow> nat \<Rightarrow> bool" where
  "isEdge_v2 d x y = isEdge 30 (gradient (neighbourhood grayAt d x y))"

text \<open>
  The neighbourhood of a neighbour \<open>(nx, ny)\<close>, with the coordinates clamped to the
  buffer, and the loops over the neighbours of \<open>(x, y)\<close>, carrying \<open>neighborConsistency\<close>
  and \<open>neighborCount\<close>.
\<close>

definition clampedNeighbourhood :: "ImageData \<Rightarrow> int \<Rightarrow> int \<Rightarrow> real option list" where
  "clampedNeighbourhood d nx ny =
     [let npy = max 0 (min (int (height d) - 1) (ny + ndy));
          npx = max 0 (min (int (width d) - 1) (nx + ndx))
      in grayAt d ((nat npy * width d + nat npx) * 4).
        ndy \<leftarrow> [- 1, 0, 1], ndx \<leftarrow> [- 1, 0, 1]]"

definition neighbourLoop :: "ImageData \<Rightarrow> nat \<Rightarrow> nat \<Rightarrow> real \<Rightarrow> nat \<times> nat" where
  "neighbourLoop d x y angle =
     fold (\<lambda>ny. fold (\<lambda>nx (neighborConsistency, neighborCount).
                    if nx = int x \<and> ny = int y then (neighborConsistency, neighborCount)
                    else
                      (case gradient (clampedNeighbourhood d nx ny) of
                         None \<Rightarrow> (neighborConsistency, neighborCount)
                       | Some (nSobelX, nSobelY) \<Rightarrow>
                           if magnitude (nSobelX, nSobelY) > 30
                           then (let nAngle = atan2 nSobelY nSobelX;
                                     angleDiff = \<bar>fl (angle - nAngle)\<bar>
                                 in (if angleDiff < fl (fl pi / 4)
                                        \<or> angleDiff > fl (fl (7 * fl pi) / 4)
                                     then neighborConsistency + 1 else neighborConsistency,
                                     neighborCount + 1))
                           else (neighborConsistency, neighborCount)))
                  [max 0 (int x - 1)..min (int (width d) - 1) (int x + 1)])
       [max 0 (int y - 1)..min (int (height d) - 1) (int y + 1)] (0, 0)"

definition edgeConsistent_v2 :: "ImageData \<Rightarrow> nat \<Rightarrow> nat \<Rightarrow> bool" where
  "edgeConsistent_v2 d x y =
     (case gradient (neighbourhood grayAt d x y) of
        None \<Rightarrow> False
      | Some (sx, sy) \<Rightarrow>
          let (neighborConsistency, neighborCount) = neighbourLoop d x y (atan2 sy sx)
          in neighborCount > 0
             \<and> fl (real neighborConsistency / real neighborCount) > 0.5)"

definition analyzeEdgeConsistency_v2 :: "real \<Rightarrow> ImageData option \<Rightarrow> real" where
  "analyzeEdgeConsistency_v2 rnd canvas =
     (case canvas of
        None \<Rightarrow> fl (70 + fl (rnd * 20))
      | Some d \<Rightarrow>
          let (consistentEdges, totalEdges) = edgeLoop (isEdge_v2 d) (edgeConsistent_v2 d) d
          in if totalEdges > 0
             then fl (fl (real consistentEdges / real totalEdges) * 100) else 75)"

paragraph \<open>Version 3\<close>

definition isEdge_v3 :: "ImageData \<Rightarrow> nat \<Rightarrow> nat \<Rightarrow> bool" where
  "isEdge_v3 d x y = isEdge 50 (gradient (neighbourhood grayAt d x y))"

definition analyzeEdgeConsistency_v3 :: "real \<Rightarrow> ImageData option \<Rightarrow> real" where
  "analyzeEdgeConsistency_v3 rnd canvas =
     (case canvas of
        None \<Rightarrow> fl (80 + fl (rnd * 15))
      | Some d \<Rightarrow>
          let (consistentEdges, totalEdges) = edgeLoop (isEdge_v3 d) (\<lambda>x y. True) d
          in if totalEdges > 0
             then min 100 (fl (fl (fl (real consistentEdges / real totalEdges) * 100) + 10))
             else 85)"

text \<open>No interior pixel of the buffer passes the edge test.\<close>

definition noEdges :: "(nat \<Rightarrow> nat \<Rightarrow> bool) \<Rightarrow> ImageData \<Rightarrow> bool" where
  "noEdges edge d =
     list_all (\<lambda>y. list_all (\<lambda>x. \<not> edge x y) [1..<width d - 1]) [1..<height d - 1]"

subsection \<open>File names\<close>

text \<open>
  The keywords that the file-name rules of the six scorers look for, and the two kinds of
  name that the comparison of file names is about: a name that contains \<open>deepfake\<close> in
  any letter case, and a neutral name, which contains none of the keywords.
\<close>

definition nameKeywords :: "string list" where
  "nameKeywords = [''fake'', ''generated'', ''ai'', ''deepfake'', ''synthetic'', ''swap'',
     ''morphed'', ''manipulated'', ''edited'', ''real'', ''authentic'', ''original'',
     ''genuine'', ''photo'', ''pic'']"

definition neutralName :: "string \<Rightarrow> bool" where
  "neutralName name = (\<not> list_ex (includes_str (toLowerCase name)) nameKeywords)"

definition deepfakeName :: "string \<Rightarrow> bool" where
  "deepfakeName name = includes_str (toLowerCase name) ''deepfake''"

subsection \<open>Example inputs\<close>

text \<open>
  A loader after a successful \<open>initializeModels\<close> and one whose initialisation failed (the
  \<open>catch\<close> block logs the error and leaves both models \<open>null\<close>); a 64 by 64 image of 50 KB
  named \<open>photo.jpg\<close>, black all over, with the signals that the extractors of version 3
  return for it; and a text file.
\<close>

definition readyLoader :: ModelLoader where
  "readyLoader = \<lparr>deepfakeModel = Some (), faceDetectionModel = Some ()\<rparr>"

definition failedLoader :: ModelLoader where
  "failedLoader = \<lparr>deepfakeModel = None, faceDetectionModel = None\<rparr>"

definition flatSignals :: signals where
  "flatSignals = \<lparr>faceDetectionScore = 30, artifactScore = 0, qualityScore = 0,
     compressionArtifacts = 0, edgeConsistency = 85, colorConsistency = 100,
     frequencyAnalysis = 32.64\<rparr>"

definition photoFile :: File where
  "photoFile = \<lparr>fileName = ''photo.jpg'', fileType = ''image/jpeg'', fileSize = 51200,
     asImage = Some \<lparr>imgWidth = 64, imgHeight = 64, imgSignals = flatSignals\<rparr>,
     asVideo = None\<rparr>"

definition textFile :: File where
  "textFile = \<lparr>fileName = ''notes.txt'', fileType = ''text/plain'', fileSize = 120,
     asImage = None, asVideo = None\<rparr>"











text \<open>
  The picture \<open>photo.jpg\<close> under a name that contains \<open>deepfake\<close>. Then a picture of the
  same size, 64 by 64 and 50 KB, black all over, with the signals that the extractors of
  version 1 return for it: no pixel passes the skin test, no neighbourhood has a
  variance, the grayscale variance is 0, no block boundary has a jump, and no edge is
  found, so that the edge extractor returns its fallback 50. Version 1 has no colour and
  no frequency extractor, and its scorer reads neither of these two fields.
\<close>

definition deepfakePhotoFile :: File where
  "deepfakePhotoFile = photoFile\<lparr>fileName := ''DeepFake_01.jpg''\<rparr>"

definition blackSignals_v1 :: signals where
  "blackSignals_v1 = \<lparr>faceDetectionScore = 0, artifactScore = 0, qualityScore = 0,
     compressionArtifacts = 0, edgeConsistency = 50, colorConsistency = 0,
     frequencyAnalysis = 0\<rparr>"

definition blackPhotoFile :: File where
  "blackPhotoFile = \<lparr>fileName = ''DeepFake_01.jpg'', fileType = ''image/jpeg'',
     fileSize = 51200,
     asImage = Some \<lparr>imgWidth = 64, imgHeight = 64, imgSignals = blackSignals_v1\<rparr>,
     asVideo = None\<rparr>"

text \<open>A cleared 4 by 4 canvas: every sample is 0 (transparent black).\<close>

definition blackImage :: ImageData where
  "blackImage = \<lparr>width = 4, height = 4, data = replicate 64 0\<rparr>"

text \<open>
  A 4 by 4 buffer of the one colour (202, 202, 100): over the reals its \<open>Cb\<close> is 77,
  the lower end of the YCbCr range.
\<close>

definition oliveImage :: ImageData where
  "oliveImage = \<lparr>width = 4, height = 4,
     data = [202, 202, 100, 255, 202, 202, 100, 255, 202, 202, 100, 255, 202, 202, 100, 255,
             202, 202, 100, 255, 202, 202, 100, 255, 202, 202, 100, 255, 202, 202, 100, 255,
             202, 202, 100, 255, 202, 202, 100, 255, 202, 202, 100, 255, 202, 202, 100, 255,
             202, 202, 100, 255, 202, 202, 100, 255, 202, 202, 100, 255, 202, 202, 100, 255]\<rparr>"

text \<open>The 64 by 64 buffer of uniform gray (128, 128, 128, 255).\<close>

definition grayImage :: ImageData where
  "grayImage = \<lparr>width = 64, height = 64,
     data = concat (replicate 4096 [128, 128, 128, 255])\<rparr>"

text \<open>A buffer of a single pixel, and a 3 by 3 buffer all of whose samples are 7.\<close>

definition onePixel :: ImageData where
  "onePixel = \<lparr>width = 1, height = 1, data = [10, 20, 30, 255]\<rparr>"

definition flatNine :: ImageData where
  "flatNine = \<lparr>width = 3, height = 3, data = replicate 36 7\<rparr>"

text \<open>
  A 3 by 3 buffer whose first two rows have the colour (11, 11, 11) and whose last row
  has the colour (16, 28, 20): over the reals the gradient at its centre has the
  magnitude 50, the threshold of version 3.
\<close>

definition stepNine :: ImageData where
  "stepNine = \<lparr>width = 3, height = 3,
     data = [11, 11, 11, 255, 11, 11, 11, 255, 11, 11, 11, 255,
             11, 11, 11, 255, 11, 11, 11, 255, 11, 11, 11, 255,
             16, 28, 20, 255, 16, 28, 20, 255, 16, 28, 20, 255]\<rparr>"

section \<open>Properties\<close>

subsection \<open>Double-precision numbers\<close>

text \<open>
  The rounding to the nearest integer: it fixes the integers, is monotone and odd, and
  moves a number by at most one half.
\<close>

lemma rne_of_int [simp]: "rne (of_int k) = k"
  by (simp add: rne_def)

lemma rne_0 [simp]: "rne 0 = 0"
  by (simp add: rne_def)

lemma rne_lower: "\<lfloor>z\<rfloor> \<le> rne z"
  by (simp add: rne_def Let_def)

lemma rne_upper: "rne z \<le> \<lceil>z\<rceil>"
  unfolding rne_def Let_def by (auto simp: ceiling_def) linarith+

lemma rne_mono: "z \<le> w \<Longrightarrow> rne z \<le> rne w"
proof -
  assume zw: "z \<le> w"
  show ?thesis
  proof (cases "\<lfloor>z\<rfloor> = \<lfloor>w\<rfloor>")
    case True
    with zw show ?thesis unfolding rne_def Let_def by auto
  next
    case False
    with zw have "\<lfloor>z\<rfloor> < \<lfloor>w\<rfloor>" using floor_mono [OF zw] by linarith
    then have "\<lfloor>z\<rfloor> + 1 \<le> \<lfloor>w\<rfloor>" by simp
    moreover have "rne z \<le> \<lfloor>z\<rfloor> + 1" unfolding rne_def Let_def by auto
    ultimately show ?thesis using rne_lower [of w] by linarith
  qed
qed

lemma rne_minus: "rne (- z) = - rne z"
proof (cases "z \<in> \<int>")
  case True
  then obtain k where "z = of_int k" by (auto elim: Ints_cases)
  then show ?thesis by (simp del: of_int_minus add: of_int_minus [symmetric])
next
  case False
  have ne: "z \<noteq> of_int \<lfloor>z\<rfloor>"
    using False by (metis Ints_of_int)
  have fl: "\<lfloor>- z\<rfloor> = - \<lfloor>z\<rfloor> - 1"
    using ne by (simp add: floor_minus ceiling_altdef)
  have fr: "0 < z - of_int \<lfloor>z\<rfloor>" "z - of_int \<lfloor>z\<rfloor> < 1"
    using ne of_int_floor_le [of z] by linarith+
  show ?thesis
    unfolding rne_def Let_def fl using fr by (auto simp: algebra_simps)
qed

lemma rne_error: "\<bar>of_int (rne z) - z\<bar> \<le> 1 / 2"
  unfolding rne_def Let_def by (auto simp: abs_le_iff)

text \<open>Powers of two, and the binade of a number.\<close>

lemma pow2_pos: "0 < (2::real) powi k"
  by simp

lemma ulp_pos [simp]: "0 < ulp x"
  by (simp add: ulp_def)

lemma ulp_nonneg [simp]: "0 \<le> ulp x"
  by (simp add: ulp_def)

lemma ulp_neq0 [simp]: "ulp x \<noteq> 0"
  by (simp add: ulp_def)

lemma expo_minus [simp]: "expo (- x) = expo x"
  by (simp add: expo_def)

lemma ulp_minus [simp]: "ulp (- x) = ulp x"
  by (simp add: ulp_def)

lemma fl_0 [simp]: "fl 0 = 0"
  by (simp add: fl_def)

lemma fl_minus: "fl (- x) = - fl x"
  by (simp add: fl_def rne_minus)

lemma powr_powi: "(2::real) powr (of_int k) = 2 powi k"
  by (simp add: powr_real_of_int')

lemma floor_log2_iff:
  assumes "0 < x"
  shows "\<lfloor>log 2 x\<rfloor> = e \<longleftrightarrow> 2 powi e \<le> x \<and> x < 2 powi (e + 1)"
proof -
  have "real_of_int e + 1 = of_int (e + 1)" by simp
  then show ?thesis
    using floor_log_eq_powr_iff [of x 2 e] assms
    by (simp only: powr_powi)
qed

lemma floor_log2_eq:
  assumes "2 powi e \<le> x" and "x < 2 powi (e + 1)"
  shows "\<lfloor>log 2 x\<rfloor> = e"
proof -
  have "0 < x" using assms(1) pow2_pos [of e] by linarith
  with assms show ?thesis by (simp add: floor_log2_iff)
qed

lemma floor_log2_bounds:
  assumes "0 < x"
  shows "2 powi \<lfloor>log 2 x\<rfloor> \<le> x" "x < 2 powi (\<lfloor>log 2 x\<rfloor> + 1)"
  using floor_log2_iff [OF assms, of "\<lfloor>log 2 x\<rfloor>"] by simp_all


lemma pow2_mono: "a \<le> b \<Longrightarrow> (2::real) powi a \<le> 2 powi b"
  by (rule power_int_increasing) simp_all

lemma pow2_strict_mono: "a < b \<Longrightarrow> (2::real) powi a < 2 powi b"
  by (rule power_int_strict_increasing) simp_all

lemma pow2_less_iff: "(2::real) powi a < 2 powi b \<longleftrightarrow> a < b"
  using pow2_mono [of b a] pow2_strict_mono [of a b] by (auto simp: not_less [symmetric])

lemma pow2_add: "(2::real) powi (a + b) = 2 powi a * 2 powi b"
  by (simp add: power_int_add)

lemma pow2_diff: "(2::real) powi (a - b) = 2 powi a / 2 powi b"
  by (simp add: power_int_diff)

lemma expo_ge: "- 1022 \<le> expo x"
  by (simp add: expo_def)

lemma expo_eq:
  assumes "2 powi e \<le> \<bar>x\<bar>" and "\<bar>x\<bar> < 2 powi (e + 1)" and "- 1022 \<le> e"
  shows "expo x = e"
  using floor_log2_eq [OF assms(1,2)] assms(3) by (simp add: expo_def)

lemma expo_subnormal:
  assumes "x \<noteq> 0" and "\<bar>x\<bar> < 2 powi (- 1022)"
  shows "expo x = - 1022"
proof -
  have "0 < \<bar>x\<bar>" using assms(1) by simp
  from floor_log2_bounds(1) [OF this] assms(2)
  have "(2::real) powi \<lfloor>log 2 \<bar>x\<bar>\<rfloor> < 2 powi (- 1022)" by linarith
  then have "\<lfloor>log 2 \<bar>x\<bar>\<rfloor> < - 1022" by (simp only: pow2_less_iff)
  then show ?thesis by (simp add: expo_def)
qed

lemma abs_less_binade:
  assumes "x \<noteq> 0"
  shows "\<bar>x\<bar> < 2 powi (expo x + 1)"
proof -
  have "0 < \<bar>x\<bar>" using assms by simp
  from floor_log2_bounds(2) [OF this]
  have "\<bar>x\<bar> < 2 powi (\<lfloor>log 2 \<bar>x\<bar>\<rfloor> + 1)" .
  also have "\<dots> \<le> 2 powi (expo x + 1)"
    by (rule pow2_mono) (simp add: expo_def)
  finally show ?thesis .
qed

lemma binade_le_abs:
  assumes "x \<noteq> 0" and "- 1022 < expo x"
  shows "2 powi expo x \<le> \<bar>x\<bar>"
proof -
  have "0 < \<bar>x\<bar>" using assms by simp
  from assms(2) have "expo x = \<lfloor>log 2 \<bar>x\<bar>\<rfloor>" by (simp add: expo_def max_def split: if_splits)
  with floor_log2_bounds(1) [OF \<open>0 < \<bar>x\<bar>\<close>] show ?thesis by simp
qed

lemma expo_mono:
  assumes "0 < x" and "x \<le> y"
  shows "expo x \<le> expo y"
proof -
  have "log 2 x \<le> log 2 y" using assms by simp
  then have "\<lfloor>log 2 x\<rfloor> \<le> \<lfloor>log 2 y\<rfloor>" by (rule floor_mono)
  with assms show ?thesis by (simp add: expo_def)
qed

lemma ulp_eq: "ulp x = 2 powi expo x / 2 ^ 52"
  by (simp add: ulp_def pow2_diff)

text \<open>Evaluation of the rounding at a number whose binade is known.\<close>

lemma fl_at:
  assumes "2 powi e \<le> \<bar>x\<bar>" and "\<bar>x\<bar> < 2 powi (e + 1)" and "- 1022 \<le> e"
  shows "fl x = of_int (rne (x / 2 powi (e - 52))) * 2 powi (e - 52)"
proof -
  have "0 < (2::real) powi e" by simp
  with assms(1) have "0 < \<bar>x\<bar>" by linarith
  then have "x \<noteq> 0" by simp
  then show ?thesis by (simp add: fl_def ulp_def expo_eq [OF assms])
qed

lemma fl_at_subnormal:
  assumes "\<bar>x\<bar> < 2 powi (- 1022)"
  shows "fl x = of_int (rne (x / 2 powi (- 1074))) * 2 powi (- 1074)"
proof (cases "x = 0")
  case True
  then show ?thesis by simp
next
  case False
  then show ?thesis by (simp add: fl_def ulp_def expo_subnormal [OF False assms])
qed

text \<open>The rounding \<open>fl\<close> keeps the sign and the binade, and is monotone.\<close>

lemma fl_nonneg: "0 \<le> x \<Longrightarrow> 0 \<le> fl x"
proof -
  assume "0 \<le> x"
  then have "0 \<le> x / ulp x" by (intro divide_nonneg_pos ulp_pos)
  then have "0 \<le> \<lfloor>x / ulp x\<rfloor>" by simp
  with rne_lower [of "x / ulp x"] have "0 \<le> rne (x / ulp x)" by linarith
  then show ?thesis by (simp add: fl_def)
qed

lemma fl_upper:
  assumes "0 < x"
  shows "fl x \<le> 2 powi (expo x + 1)"
proof -
  have "x < 2 powi (expo x + 1)" using abs_less_binade [of x] assms by simp
  also have "\<dots> = 2 ^ 53 * ulp x" by (simp add: ulp_eq pow2_add)
  finally have "x / ulp x < 2 ^ 53" by (simp add: pos_divide_less_eq)
  then have "\<lceil>x / ulp x\<rceil> \<le> 2 ^ 53" by (simp add: ceiling_le_iff)
  with rne_upper [of "x / ulp x"] have "rne (x / ulp x) \<le> 2 ^ 53" by linarith
  then have "(of_int (rne (x / ulp x)) :: real) \<le> 2 ^ 53"
    by (metis of_int_le_iff of_int_numeral of_int_power)
  then have "of_int (rne (x / ulp x)) * ulp x \<le> 2 ^ 53 * ulp x"
    by (simp add: mult_right_mono)
  also have "\<dots> = 2 powi (expo x + 1)" by (simp add: ulp_eq pow2_add)
  finally show ?thesis using assms by (simp add: fl_def)
qed

lemma fl_lower:
  assumes "0 < x" and "- 1022 < expo x"
  shows "2 powi expo x \<le> fl x"
proof -
  have "2 powi expo x \<le> x" using binade_le_abs [of x] assms by simp
  moreover have "2 powi expo x = 2 ^ 52 * ulp x" by (simp add: ulp_eq)
  ultimately have "2 ^ 52 \<le> x / ulp x" by (simp add: pos_le_divide_eq)
  then have "2 ^ 52 \<le> \<lfloor>x / ulp x\<rfloor>" by (simp add: le_floor_iff)
  with rne_lower [of "x / ulp x"] have "2 ^ 52 \<le> rne (x / ulp x)" by linarith
  then have "(2 ^ 52 :: real) \<le> of_int (rne (x / ulp x))"
    by (metis of_int_le_iff of_int_numeral of_int_power)
  then have "2 ^ 52 * ulp x \<le> of_int (rne (x / ulp x)) * ulp x"
    by (simp add: mult_right_mono)
  then show ?thesis using assms by (simp add: fl_def ulp_eq)
qed

lemma fl_mono_pos:
  assumes "0 < x" and "x \<le> y"
  shows "fl x \<le> fl y"
proof (cases "expo x = expo y")
  case True
  then have u: "ulp x = ulp y" by (simp add: ulp_def)
  have "x / ulp y \<le> y / ulp y" using assms(2) by (simp add: divide_right_mono)
  then have "rne (x / ulp y) \<le> rne (y / ulp y)" by (rule rne_mono)
  then have "(of_int (rne (x / ulp y)) :: real) \<le> of_int (rne (y / ulp y))" by simp
  then have "of_int (rne (x / ulp y)) * ulp y \<le> of_int (rne (y / ulp y)) * ulp y"
    by (simp add: mult_right_mono)
  with assms show ?thesis by (simp add: fl_def u)
next
  case False
  with expo_mono [OF assms] have lt: "expo x < expo y" by simp
  have y: "0 < y" using assms by simp
  have "fl x \<le> 2 powi (expo x + 1)" by (rule fl_upper [OF assms(1)])
  also have "\<dots> \<le> 2 powi expo y" by (rule pow2_mono) (use lt in simp)
  also have "\<dots> \<le> fl y" using fl_lower [OF y] lt expo_ge [of x] by simp
  finally show ?thesis .
qed

lemma fl_mono: "x \<le> y \<Longrightarrow> fl x \<le> fl y"
proof -
  assume xy: "x \<le> y"
  consider "0 < x" | "x \<le> 0" "0 \<le> y" | "y < 0" by linarith
  then show ?thesis
  proof cases
    case 1
    then show ?thesis using xy by (rule fl_mono_pos)
  next
    case 2
    then have "fl x \<le> 0" using fl_nonneg [of "- x"] by (simp add: fl_minus)
    moreover have "0 \<le> fl y" using 2 by (simp add: fl_nonneg)
    ultimately show ?thesis by simp
  next
    case 3
    then have "fl (- y) \<le> fl (- x)" using xy by (intro fl_mono_pos) simp_all
    then show ?thesis by (simp add: fl_minus)
  qed
qed

text \<open>The representable numbers: an integer of at most 53 bits times a power of two.\<close>

lemma fl_repr_pos:
  assumes "0 < k" and "k < 2 ^ 53" and "- 1074 \<le> m"
  shows "fl (of_int k * 2 powi m) = of_int k * 2 powi m"
proof -
  define x :: real where "x = of_int k * 2 powi m"
  define E where "E = expo x"
  have pos: "0 < x" using assms(1) by (simp add: x_def)
  have "(of_int k :: real) < 2 ^ 53" using assms(2)
    by (metis of_int_less_iff of_int_numeral of_int_power)
  then have "x < 2 ^ 53 * 2 powi m" by (simp add: x_def)
  also have "\<dots> = 2 powi (m + 53)" by (simp add: pow2_add)
  finally have lt: "x < 2 powi (m + 53)" .
  have "2 powi \<lfloor>log 2 x\<rfloor> \<le> x" by (rule floor_log2_bounds(1) [OF pos])
  with lt have "(2::real) powi \<lfloor>log 2 x\<rfloor> < 2 powi (m + 53)" by linarith
  then have "\<lfloor>log 2 x\<rfloor> < m + 53" by (simp only: pow2_less_iff)
  with assms(3) have e: "E \<le> m + 52" using pos by (simp add: expo_def E_def)
  define n where "n = nat (m + 52 - E)"
  have n: "m - (E - 52) = int n" using e by (simp add: n_def)
  have "(2::real) powi m / 2 powi (E - 52) = 2 powi (int n)"
    unfolding n [symmetric] by (simp add: pow2_diff)
  then have q: "(2::real) powi m / 2 powi (E - 52) = 2 ^ n" by simp
  have "x / ulp x = of_int k * (2 powi m / 2 powi (E - 52))"
    by (simp add: ulp_def x_def E_def)
  also have "\<dots> = of_int (k * 2 ^ n)" unfolding q by simp
  finally have int: "x / ulp x = of_int (k * 2 ^ n)" .
  then have "rne (x / ulp x) = k * 2 ^ n" by (simp only: rne_of_int)
  then have "of_int (rne (x / ulp x)) * ulp x = (x / ulp x) * ulp x"
    using int by simp
  also have "\<dots> = x" by simp
  finally have "fl x = x" using pos by (simp add: fl_def)
  then show ?thesis by (simp add: x_def)
qed

lemma fl_repr:
  assumes "\<bar>k\<bar> \<le> 2 ^ 53" and "- 1074 \<le> m"
  shows "fl (of_int k * 2 powi m) = of_int k * 2 powi m"
proof -
  have pos: "fl (of_int j * 2 powi m) = of_int j * 2 powi m" if "0 < j" "j \<le> 2 ^ 53" for j
  proof (cases "j = 2 ^ 53")
    case True
    have "of_int j * (2::real) powi m = of_int 1 * 2 powi (m + 53)"
      unfolding True by (simp add: pow2_add)
    moreover have "fl (of_int 1 * 2 powi (m + 53)) = of_int 1 * 2 powi (m + 53)"
      by (rule fl_repr_pos) (use assms(2) in simp_all)
    ultimately show ?thesis by simp
  next
    case False
    with that have "j < 2 ^ 53" by simp
    with that(1) assms(2) show ?thesis by (intro fl_repr_pos) simp_all
  qed
  consider "0 < k" | "k = 0" | "k < 0" by linarith
  then show ?thesis
  proof cases
    case 1
    with assms(1) show ?thesis by (intro pos) simp_all
  next
    case 2
    then show ?thesis by simp
  next
    case 3
    with assms(1) have "fl (of_int (- k) * 2 powi m) = of_int (- k) * 2 powi m"
      by (intro pos) simp_all
    then show ?thesis using fl_minus [of "of_int k * 2 powi m"] by simp
  qed
qed

lemma fl_of_int: "\<bar>k\<bar> \<le> 2 ^ 53 \<Longrightarrow> fl (of_int k) = of_int k"
  using fl_repr [of k 0] by simp

lemma rne_ulp_bound:
  assumes "x \<noteq> 0"
  shows "\<bar>rne (x / ulp x)\<bar> \<le> 2 ^ 53"
proof -
  have "\<bar>x\<bar> < 2 powi (expo x + 1)" by (rule abs_less_binade [OF assms])
  also have "\<dots> = 2 ^ 53 * ulp x" by (simp add: ulp_eq pow2_add)
  finally have "\<bar>x\<bar> / ulp x < 2 ^ 53" by (simp add: pos_divide_less_eq)
  then have "\<bar>x / ulp x\<bar> < 2 ^ 53" by simp
  then have b: "x / ulp x < 2 ^ 53" "- (2 ^ 53) < x / ulp x"
    by linarith+
  from b(1) have "\<lceil>x / ulp x\<rceil> \<le> 2 ^ 53" by (simp add: ceiling_le_iff)
  moreover from b(2) have "- (2 ^ 53) \<le> \<lfloor>x / ulp x\<rfloor>" by (simp add: le_floor_iff)
  ultimately show ?thesis using rne_lower [of "x / ulp x"] rne_upper [of "x / ulp x"]
    by linarith
qed

lemma fl_idem [simp]: "fl (fl x) = fl x"
proof (cases "x = 0")
  case True
  then show ?thesis by simp
next
  case False
  have "fl (of_int (rne (x / ulp x)) * 2 powi (expo x - 52))
      = of_int (rne (x / ulp x)) * 2 powi (expo x - 52)"
    by (rule fl_repr [OF rne_ulp_bound [OF False]]) (use expo_ge [of x] in simp)
  with False show ?thesis by (simp add: fl_def ulp_def)
qed




text \<open>Integers of at most 53 bits are doubles, and so is the double of a double.\<close>

lemma fl_numeral [simp]:
  "numeral n \<le> (9007199254740992::int) \<Longrightarrow> fl (numeral n) = numeral n"
  using fl_of_int [of "numeral n"] by simp

lemma fl_1 [simp]: "fl 1 = 1"
  using fl_of_int [of 1] by simp

lemma fl_neg_numeral [simp]:
  "numeral n \<le> (9007199254740992::int) \<Longrightarrow> fl (- numeral n) = - numeral n"
  by (simp add: fl_minus)

lemma fl_neg_1 [simp]: "fl (- 1) = - 1"
  by (simp add: fl_minus)

lemma fl_of_nat:
  assumes "n \<le> 2 ^ 53"
  shows "fl (real n) = real n"
proof -
  from assms have "int n \<le> 2 ^ 53"
    by (metis of_nat_le_iff of_nat_numeral of_nat_power)
  then have "fl (of_int (int n)) = of_int (int n)" by (intro fl_of_int) simp
  then show ?thesis by simp
qed

lemma fl_double: "fl (2 * fl x) = 2 * fl x"
proof (cases "x = 0")
  case True
  then show ?thesis by simp
next
  case False
  have p: "(2::real) powi (expo x - 51) = 2 * 2 powi (expo x - 52)"
    using pow2_add [of "expo x - 52" 1] by simp
  have "fl (of_int (rne (x / ulp x)) * 2 powi (expo x - 51))
      = of_int (rne (x / ulp x)) * 2 powi (expo x - 51)"
    by (rule fl_repr [OF rne_ulp_bound [OF False]]) (use expo_ge [of x] in simp)
  moreover have "2 * fl x = of_int (rne (x / ulp x)) * 2 powi (expo x - 51)"
    unfolding p using False by (simp add: fl_def ulp_def)
  ultimately show ?thesis by simp
qed

text \<open>A positive number is rounded to 0 exactly when it is at most \<open>2 powi (- 1075)\<close>.\<close>

lemma fl_pos_iff: "0 < fl x \<longleftrightarrow> 2 powi (- 1075) < x"
proof (cases "2 powi (- 1074) \<le> x")
  case True
  have "fl (of_int 1 * 2 powi (- 1074)) = of_int 1 * 2 powi (- 1074)"
    by (rule fl_repr) simp_all
  then have "2 powi (- 1074) \<le> fl x"
    using fl_mono [OF True] by simp
  moreover have "(0::real) < 2 powi (- 1074)" by simp
  moreover have "(2::real) powi (- 1075) < 2 powi (- 1074)" by (rule pow2_strict_mono) simp
  ultimately show ?thesis using True by linarith
next
  case False
  then have small: "x < 2 powi (- 1074)" by simp
  show ?thesis
  proof (cases "0 < x")
    case False
    then have "fl x \<le> 0" using fl_nonneg [of "- x"] by (simp add: fl_minus)
    moreover have "(0::real) < 2 powi (- 1075)" by simp
    ultimately show ?thesis using False by linarith
  next
    case True
    define z where "z = x / 2 powi (- 1074)"
    have z: "0 < z" "z < 1" using True small by (simp_all add: z_def)
    have "(2::real) powi (- 1074) < 2 powi (- 1022)" by (rule pow2_strict_mono) simp
    with small True have "\<bar>x\<bar> < 2 powi (- 1022)" by simp
    then have f: "fl x = of_int (rne z) * 2 powi (- 1074)"
      unfolding z_def by (rule fl_at_subnormal)
    have fz: "\<lfloor>z\<rfloor> = 0" using z by (simp add: floor_eq_iff)
    have r: "0 < rne z \<longleftrightarrow> 1 / 2 < z"
      unfolding rne_def Let_def fz by simp
    have "(2::real) powi (- 1075) = 2 powi (- 1074) / 2"
      using pow2_diff [of "- 1074" 1] by simp
    then have "2 powi (- 1075) < x \<longleftrightarrow> 1 / 2 < z"
      by (simp add: z_def field_simps)
    moreover have "0 < fl x \<longleftrightarrow> 0 < rne z"
      unfolding f by (simp add: zero_less_mult_iff)
    ultimately show ?thesis using r by simp
  qed
qed

text \<open>
  The rounded square root of a number that is at least \<open>r\<^sup>2\<close> is at least \<open>r\<close>, when \<open>r\<close> is
  a double.
\<close>

lemma fl_sqrt_ge:
  assumes "fl r = r" and "0 \<le> r" and "r\<^sup>2 \<le> a"
  shows "r \<le> fl (sqrt a)"
proof -
  from assms(2,3) have "r \<le> sqrt a" by (simp add: real_le_rsqrt)
  then have "fl r \<le> fl (sqrt a)" by (rule fl_mono)
  with assms(1) show ?thesis by simp
qed

subsection \<open>Threat level\<close>

text \<open>
  Claim C2. The threat level is a function of the confidence and of the artifact signal
  alone, and it is monotone in the confidence: between two calls whose analysis records
  carry the same artifact signal, a higher confidence never gives a lower level in the
  order low, medium, high, critical. This holds for the ladder of each of the three
  versions.
\<close>

theorem threatLevel_monotone:
  assumes "c1 \<le> c2" and "artifactDetection a1 = artifactDetection a2"
  shows "threatRank (calculateThreatLevel_v1 c1 a1) \<le> threatRank (calculateThreatLevel_v1 c2 a2)
       \<and> threatRank (calculateThreatLevel_v2 c1 a1) \<le> threatRank (calculateThreatLevel_v2 c2 a2)
       \<and> threatRank (calculateThreatLevel_v3 c1 a1) \<le> threatRank (calculateThreatLevel_v3 c2 a2)"
proof (intro conjI)
  show "threatRank (calculateThreatLevel_v1 c1 a1) \<le> threatRank (calculateThreatLevel_v1 c2 a2)"
    using assms by simp
  show "threatRank (calculateThreatLevel_v2 c1 a1) \<le> threatRank (calculateThreatLevel_v2 c2 a2)"
    using assms by simp
  show "threatRank (calculateThreatLevel_v3 c1 a1) \<le> threatRank (calculateThreatLevel_v3 c2 a2)"
    using assms by simp
qed

theorem threatLevel_monotone_witness:
  "calculateThreatLevel_v1 72 \<lparr>faceDetection = 50, temporalConsistency = 100,
        artifactDetection = 75, imageQuality = 60, neuralNetworkConfidence = 72\<rparr> = High
   \<and> calculateThreatLevel_v1 88 \<lparr>faceDetection = 10, temporalConsistency = 95,
        artifactDetection = 75, imageQuality = 20, neuralNetworkConfidence = 88\<rparr> = Critical
   \<and> threatRank (calculateThreatLevel_v1 72 \<lparr>faceDetection = 50, temporalConsistency = 100,
        artifactDetection = 75, imageQuality = 60, neuralNetworkConfidence = 72\<rparr>)
     \<le> threatRank (calculateThreatLevel_v1 88 \<lparr>faceDetection = 10, temporalConsistency = 95,
        artifactDetection = 75, imageQuality = 20, neuralNetworkConfidence = 88\<rparr>)"
proof -
  have h: "(72::real) \<le> 88" by simp
  have e: "artifactDetection \<lparr>faceDetection = 50, temporalConsistency = 100,
        artifactDetection = 75, imageQuality = 60, neuralNetworkConfidence = 72\<rparr>
      = artifactDetection \<lparr>faceDetection = 10, temporalConsistency = 95,
        artifactDetection = 75, imageQuality = 20, neuralNetworkConfidence = 88\<rparr>"
    by simp
  show ?thesis
    using threatLevel_monotone [OF h e] by simp
qed

subsection \<open>Temporal consistency\<close>

text \<open>
  Claim C5. For a sequence of exactly one frame analysis the temporal consistency is the
  neutral default of the version, whatever the frame holds: 100 in versions 1 and 2,
  90 in version 3. No pair of frames is compared.
\<close>

theorem temporalConsistency_single_frame:
  "calculateTemporalConsistency_v1 [a] = 100
   \<and> calculateTemporalConsistency_v2 [a] = 100
   \<and> calculateTemporalConsistency_v3 [a] = 90"
  by (simp add: calculateTemporalConsistency_v1_def calculateTemporalConsistency_v2_def
      calculateTemporalConsistency_v3_def)

subsection \<open>The detection entry point\<close>

lemma clampScore_bounds: "0 \<le> clampScore x \<and> clampScore x \<le> 100"
  by (simp add: clampScore_def)

lemma await_Resolved:
  "await p k = Resolved r \<Longrightarrow> \<exists>x. p = Resolved x \<and> k x = Resolved r"
  by (cases p) auto

lemma await_Rejected:
  "await p k = Rejected e \<Longrightarrow> p = Rejected e \<or> (\<exists>x. p = Resolved x \<and> k x = Rejected e)"
  by (cases p) auto

lemma captureLoop_not_Rejected: "captureLoop v i N t c fs \<noteq> Rejected e"
proof (induction v i N t c fs rule: captureLoop.induct)
  case (1 v interval maxFrames currentTime frameCount frames)
  then show ?case
    by (subst captureLoop.simps) (auto simp: Let_def split: number.splits)
qed

lemma captureLoop_length:
  "captureLoop v i N t c fs = Resolved fr \<Longrightarrow> length fr = length fs + max 1 (N - c)"
proof (induction v i N t c fs rule: captureLoop.induct)
  case (1 v interval maxFrames currentTime frameCount frames)
  show ?case
  proof (cases "frameCount + 1 < maxFrames")
    case True
    from "1.prems" True obtain t' where
      a: "numAdd currentTime interval = Finite t'" and
      r: "captureLoop v interval maxFrames t' (frameCount + 1) (frames @ [capture v currentTime])
            = Resolved fr"
      by (subst (asm) captureLoop.simps) (auto simp: Let_def split: number.splits)
    from "1.IH" [OF refl refl True a r] True show ?thesis by simp
  next
    case False
    with "1.prems" show ?thesis
      by (subst (asm) captureLoop.simps) (auto simp: Let_def)
  qed
qed

lemma extractFrames_length:
  assumes "extractFramesFromVideo f N = Resolved frames"
  shows "length frames = max 1 N"
  using assms captureLoop_length [of _ _ N 0 0 "[]" frames]
  by (auto simp: extractFramesFromVideo_def split: option.splits if_splits)

lemma analyzeImage_Resolved:
  "analyzeImage ver rnd f = Resolved (c, an) \<Longrightarrow>
     0 \<le> c \<and> c \<le> 100 \<and> temporalConsistency an = 100"
  by (cases ver; cases "asImage f")
     (auto simp: analyzeImage_v1_def analyzeImage_v2_def analyzeImage_v3_def loadImage_def
        Let_def clampScore_bounds)

lemma analyzeVideo_Resolved:
  "analyzeVideo ver rnd f = Resolved (c, an) \<Longrightarrow> 0 \<le> c \<and> c \<le> 100"
  by (cases ver; cases "extractFramesFromVideo f 5")
     (auto simp: analyzeVideo_v1_def analyzeVideo_v2_def analyzeVideo_v3_def
        Let_def clampScore_bounds)

lemma analyzeImage_Rejected: "analyzeImage ver rnd f = Rejected e \<Longrightarrow> e = LoadError"
  by (cases ver; cases "asImage f")
     (auto simp: analyzeImage_v1_def analyzeImage_v2_def analyzeImage_v3_def loadImage_def
        Let_def)

lemma extractFrames_Rejected: "extractFramesFromVideo f N = Rejected e \<Longrightarrow> e = LoadError"
  by (auto simp: extractFramesFromVideo_def captureLoop_not_Rejected
      split: option.splits if_splits)

lemma analyzeVideo_Rejected: "analyzeVideo ver rnd f = Rejected e \<Longrightarrow> e = LoadError"
  by (cases ver; cases "extractFramesFromVideo f 5")
     (auto simp: analyzeVideo_v1_def analyzeVideo_v2_def analyzeVideo_v3_def Let_def
        dest: extractFrames_Rejected)

lemma detectDeepfake_Resolved:
  assumes "detectDeepfake ver ml t0 t1 rnd f = Resolved r"
  obtains c an where
    "(if startsWith (fileType f) ''image/'' then analyzeImage ver rnd f
      else if startsWith (fileType f) ''video/'' then analyzeVideo ver rnd f
      else Rejected UnsupportedFileType) = Resolved (c, an)"
    and "confidence r = c" and "analysis r = an"
proof -
  from assms have "isModelsReady ml"
    by (auto simp: detectDeepfake_def split: if_splits)
  with assms show ?thesis
    using that by (auto simp: detectDeepfake_def dest!: await_Resolved)
qed

lemma photo_lower: "toLowerCase ''photo.jpg'' = ''photo.jpg''"
  by (simp add: toLowerCase_def toLowerChar_def)

lemma photo_filenameRule: "filenameRule_image_v3 ''photo.jpg'' = - 20"
  unfolding filenameRule_image_v3_def photo_lower Let_def by simp

lemma photo_score:
  "suspicionScore_image_v3 (\<lambda>i. 1 / 2) ''photo.jpg'' 51200
     \<lparr>imgWidth = 64, imgHeight = 64, imgSignals = flatSignals\<rparr> = - 35"
  by (simp add: suspicionScore_image_v3_def photo_filenameRule anomalyRules_image_v3_def
      anomalyCount_v3_def normalityRules_image_v3_def metadataRules_image_v3_def
      aspectNormal_v3_def fileSizeMB_def flatSignals_def)

lemma flatSignals_fields:
  "faceDetectionScore flatSignals = 30" "artifactScore flatSignals = 0"
  "qualityScore flatSignals = 0"
  by (simp_all add: flatSignals_def)

lemma photoFile_result:
  "detectDeepfake V3 readyLoader 0 1 (\<lambda>i. 1 / 2) photoFile =
     Resolved \<lparr>isDeepfake = False, confidence = 0, threatLevel = Low,
       analysis = \<lparr>faceDetection = 30, temporalConsistency = 100, artifactDetection = 0,
                   imageQuality = 0, neuralNetworkConfidence = 0\<rparr>,
       processingTime = 1\<rparr>"
  by (simp add: detectDeepfake_def isModelsReady_def readyLoader_def photoFile_def
      startsWith_def analyzeImage_v3_def loadImage_def photo_score clampScore_def
      flatSignals_fields)

text \<open>
  Claim C1. Whatever the version, the file, its signals and metadata and the random
  draws, the confidence of a returned detection result lies between 0 and 100: both the
  image path and the video path clamp the accumulated score before returning it.
\<close>

theorem confidence_clamped:
  assumes "detectDeepfake ver ml t0 t1 rnd f = Resolved r"
  shows "0 \<le> confidence r \<and> confidence r \<le> 100"
proof -
  from assms obtain c an where
    src: "(if startsWith (fileType f) ''image/'' then analyzeImage ver rnd f
           else if startsWith (fileType f) ''video/'' then analyzeVideo ver rnd f
           else Rejected UnsupportedFileType) = Resolved (c, an)"
    and r: "confidence r = c"
    by (rule detectDeepfake_Resolved)
  from src have "0 \<le> c \<and> c \<le> 100"
    by (auto split: if_splits dest: analyzeImage_Resolved analyzeVideo_Resolved)
  with r show ?thesis by simp
qed

theorem confidence_clamped_witness:
  "\<exists>r. detectDeepfake V3 readyLoader 0 1 (\<lambda>i. 1 / 2) photoFile = Resolved r
       \<and> 0 \<le> confidence r \<and> confidence r \<le> 100"
  using confidence_clamped [OF photoFile_result] photoFile_result by blast

text \<open>
  Claim C10. A result returned for a file whose declared type starts with \<open>image/\<close> has
  \<open>temporalConsistency\<close> equal to 100 in its analysis record, in every version and
  whatever the image, its name and its signals.
\<close>

theorem image_temporalConsistency:
  assumes "startsWith (fileType f) ''image/''"
    and "detectDeepfake ver ml t0 t1 rnd f = Resolved r"
  shows "temporalConsistency (analysis r) = 100"
proof -
  from assms(2) obtain c an where
    src: "(if startsWith (fileType f) ''image/'' then analyzeImage ver rnd f
           else if startsWith (fileType f) ''video/'' then analyzeVideo ver rnd f
           else Rejected UnsupportedFileType) = Resolved (c, an)"
    and r: "analysis r = an"
    by (rule detectDeepfake_Resolved)
  from src assms(1) have "analyzeImage ver rnd f = Resolved (c, an)" by simp
  then have "temporalConsistency an = 100" by (simp add: analyzeImage_Resolved)
  with r show ?thesis by simp
qed

theorem image_temporalConsistency_witness:
  "startsWith (fileType photoFile) ''image/''
   \<and> (\<exists>r. detectDeepfake V3 readyLoader 0 1 (\<lambda>i. 1 / 2) photoFile = Resolved r
          \<and> temporalConsistency (analysis r) = 100)"
proof -
  have t: "startsWith (fileType photoFile) ''image/''"
    by (simp add: startsWith_def photoFile_def)
  from image_temporalConsistency [OF t photoFile_result] photoFile_result t
  show ?thesis by blast
qed

text \<open>
  Claim C4, as amended. The entry point tests the readiness of the models before it
  looks at the type: with the models not ready every call is rejected with ``models not
  initialized'', whatever the type. With the models ready, the call is rejected with
  ``unsupported file type'' exactly when the declared type starts with neither \<open>image/\<close>
  nor \<open>video/\<close>. In every state, a type that starts with neither makes the call reject
  (no result is produced), and a type that starts with one of them never leads to the
  unsupported-type rejection.
\<close>

theorem unsupported_type_iff:
  "(detectDeepfake ver ml t0 t1 rnd f = Rejected UnsupportedFileType
      \<longleftrightarrow> isModelsReady ml \<and> \<not> startsWith (fileType f) ''image/''
            \<and> \<not> startsWith (fileType f) ''video/'')
   \<and> (\<not> isModelsReady ml \<longrightarrow>
         detectDeepfake ver ml t0 t1 rnd f = Rejected ModelsNotInitialized)
   \<and> (\<not> startsWith (fileType f) ''image/'' \<and> \<not> startsWith (fileType f) ''video/''
        \<longrightarrow> (\<exists>e. detectDeepfake ver ml t0 t1 rnd f = Rejected e))"
proof (intro conjI impI)
  show "detectDeepfake ver ml t0 t1 rnd f = Rejected UnsupportedFileType
      \<longleftrightarrow> isModelsReady ml \<and> \<not> startsWith (fileType f) ''image/''
            \<and> \<not> startsWith (fileType f) ''video/''"
  proof
    assume rej: "detectDeepfake ver ml t0 t1 rnd f = Rejected UnsupportedFileType"
    then have ready: "isModelsReady ml"
      by (auto simp: detectDeepfake_def split: if_splits)
    with rej have "(if startsWith (fileType f) ''image/'' then analyzeImage ver rnd f
           else if startsWith (fileType f) ''video/'' then analyzeVideo ver rnd f
           else Rejected UnsupportedFileType) = Rejected UnsupportedFileType"
      by (auto simp: detectDeepfake_def dest!: await_Rejected)
    then have "\<not> startsWith (fileType f) ''image/'' \<and> \<not> startsWith (fileType f) ''video/''"
      by (auto split: if_splits dest: analyzeImage_Rejected analyzeVideo_Rejected)
    with ready show "isModelsReady ml \<and> \<not> startsWith (fileType f) ''image/''
            \<and> \<not> startsWith (fileType f) ''video/''" by simp
  next
    assume "isModelsReady ml \<and> \<not> startsWith (fileType f) ''image/''
            \<and> \<not> startsWith (fileType f) ''video/''"
    then show "detectDeepfake ver ml t0 t1 rnd f = Rejected UnsupportedFileType"
      by (simp add: detectDeepfake_def)
  qed
next
  assume "\<not> isModelsReady ml"
  then show "detectDeepfake ver ml t0 t1 rnd f = Rejected ModelsNotInitialized"
    by (simp add: detectDeepfake_def)
next
  assume "\<not> startsWith (fileType f) ''image/'' \<and> \<not> startsWith (fileType f) ''video/''"
  then show "\<exists>e. detectDeepfake ver ml t0 t1 rnd f = Rejected e"
    by (simp add: detectDeepfake_def)
qed

theorem unsupported_type_iff_witness:
  "isModelsReady readyLoader \<and> \<not> isModelsReady failedLoader
   \<and> \<not> startsWith (fileType textFile) ''image/'' \<and> \<not> startsWith (fileType textFile) ''video/''
   \<and> detectDeepfake V1 readyLoader 0 1 (\<lambda>i. 0) textFile = Rejected UnsupportedFileType
   \<and> detectDeepfake V1 failedLoader 0 1 (\<lambda>i. 0) textFile = Rejected ModelsNotInitialized
   \<and> (\<exists>e. detectDeepfake V1 failedLoader 0 1 (\<lambda>i. 0) textFile = Rejected e)"
proof -
  have a: "isModelsReady readyLoader" and b: "\<not> isModelsReady failedLoader"
    by (simp_all add: isModelsReady_def readyLoader_def failedLoader_def)
  have c: "\<not> startsWith (fileType textFile) ''image/'' \<and> \<not> startsWith (fileType textFile) ''video/''"
    by (simp add: startsWith_def textFile_def)
  from unsupported_type_iff [of V1 readyLoader 0 1 "\<lambda>i. 0" textFile]
    unsupported_type_iff [of V1 failedLoader 0 1 "\<lambda>i. 0" textFile] a b c
  show ?thesis by blast
qed

text \<open>
  The claim as stated fails where the models are not ready: the declared type
  \<open>text/plain\<close> starts with neither prefix, and the call is rejected with ``models not
  initialized'', not with ``unsupported file type''.
\<close>

theorem unsupported_type_counterexample:
  "\<not> (detectDeepfake V1 failedLoader 0 1 (\<lambda>i. 0) textFile = Rejected UnsupportedFileType
       \<longleftrightarrow> \<not> startsWith (fileType textFile) ''image/''
            \<and> \<not> startsWith (fileType textFile) ''video/'')"
  by (simp add: detectDeepfake_def isModelsReady_def failedLoader_def startsWith_def
      textFile_def)

subsection \<open>Frame sampling\<close>

























subsection \<open>File names and confidence\<close>

lemma includes_str_sublist: "includes_str s k \<longleftrightarrow> sublist k s"
  by (induction s) (auto simp: sublist_Cons_right)

lemma deepfake_includes_fake:
  assumes "includes_str s ''deepfake''"
  shows "includes_str s ''fake''"
proof -
  have "sublist ''fake'' ''deepfake''"
    unfolding sublist_def by (intro exI [of _ "''deep''"] exI [of _ "[]"]) simp
  with assms show ?thesis
    unfolding includes_str_sublist by (rule sublist_order.order_trans [rotated])
qed

lemma neutralName_simps:
  assumes "neutralName n"
  shows "filenameRule_image_v1 n = 0" "filenameRule_video_v1 n = 0"
    "filenameRule_image_v2 n = 0" "filenameRule_video_v2 n = 0"
    "filenameRule_image_v3 n = 0" "filenameRule_video_v3 n = 0"
  using assms
  by (simp_all add: neutralName_def nameKeywords_def filenameRule_image_v1_def
      filenameRule_video_v1_def filenameRule_image_v2_def filenameRule_video_v2_def
      filenameRule_image_v3_def filenameRule_video_v3_def Let_def)

lemma deepfakeName_bonus:
  assumes "deepfakeName n"
  shows "filenameRule_image_v1 n = 60" "filenameRule_video_v1 n = 70"
    "filenameRule_image_v2 n = 85" "filenameRule_video_v2 n = 80"
    "50 \<le> filenameRule_image_v3 n" "filenameRule_video_v3 n = 60"
  using assms deepfake_includes_fake [of "toLowerCase n"]
  by (simp_all add: deepfakeName_def filenameRule_image_v1_def
      filenameRule_video_v1_def filenameRule_image_v2_def filenameRule_video_v2_def
      filenameRule_image_v3_def filenameRule_video_v3_def Let_def)


lemma clampScore_mono: "a \<le> b \<Longrightarrow> clampScore a \<le> clampScore b"
  by (simp add: clampScore_def)

lemma clampScore_strict:
  "a < b \<Longrightarrow> 0 < b \<Longrightarrow> clampScore a < 100 \<Longrightarrow> clampScore a < clampScore b"
  by (simp add: clampScore_def)

lemma signalRules_image_v1_nonneg: "0 \<le> signalRules_image_v1 sg"
  unfolding signalRules_image_v1_def by (intro add_nonneg_nonneg) simp_all

lemma fileSizeRule_v1_nonneg: "0 \<le> fileSizeRule_v1 sz"
  unfolding fileSizeRule_v1_def by (intro add_nonneg_nonneg) simp_all

lemma signalRules_image_v2_nonneg: "0 \<le> signalRules_image_v2 sg"
  unfolding signalRules_image_v2_def by (intro add_nonneg_nonneg) simp_all

lemma metadataRules_image_v2_nonneg: "0 \<le> metadataRules_image_v2 sz img"
  unfolding metadataRules_image_v2_def by (intro add_nonneg_nonneg) simp_all

lemma anomalyRules_image_v3_nonneg: "0 \<le> anomalyRules_image_v3 sg"
  unfolding anomalyRules_image_v3_def by (intro add_nonneg_nonneg) simp_all

lemma normalityRules_image_v3_lower: "- 35 \<le> normalityRules_image_v3 sg"
  unfolding normalityRules_image_v3_def by (simp split: if_splits)

lemma metadataRules_image_v3_lower: "- 15 \<le> metadataRules_image_v3 sz img"
  unfolding metadataRules_image_v3_def by (simp split: if_splits)

lemma score_image_v1_compare:
  assumes "\<forall>i. 0 \<le> rnd i \<and> rnd i < 1" and "deepfakeName a" and "neutralName b"
  shows "suspicionScore_image_v1 rnd b sz img < suspicionScore_image_v1 rnd a sz img
       \<and> 0 < suspicionScore_image_v1 rnd a sz img"
proof -
  from assms(1) have "0 \<le> rnd 0" by blast
  then have "0 \<le> rnd 0 * 30" by simp
  moreover have "0 \<le> addIf (rnd 1 > 0.7) 40" by simp
  moreover note signalRules_image_v1_nonneg [of "imgSignals img"] fileSizeRule_v1_nonneg [of sz]
  ultimately show ?thesis
    unfolding suspicionScore_image_v1_def neutralName_simps [OF assms(3)]
      deepfakeName_bonus [OF assms(2)]
    by linarith
qed

lemma score_image_v2_compare:
  assumes "\<forall>i. 0 \<le> rnd i \<and> rnd i < 1" and "deepfakeName a" and "neutralName b"
  shows "suspicionScore_image_v2 rnd b sz img < suspicionScore_image_v2 rnd a sz img
       \<and> 0 < suspicionScore_image_v2 rnd a sz img"
proof -
  from assms(1) have "0 \<le> rnd 0" by blast
  then have "- 10 \<le> (rnd 0 - 0.5) * 20" by simp
  moreover note signalRules_image_v2_nonneg [of "imgSignals img"]
    metadataRules_image_v2_nonneg [of sz img]
  ultimately show ?thesis
    unfolding suspicionScore_image_v2_def neutralName_simps [OF assms(3)]
      deepfakeName_bonus [OF assms(2)]
    by linarith
qed

lemma score_image_v3_compare:
  assumes "\<forall>i. 0 \<le> rnd i \<and> rnd i < 1" and "deepfakeName a" and "neutralName b"
  shows "suspicionScore_image_v3 rnd b sz img < suspicionScore_image_v3 rnd a sz img
       \<and> 0 < suspicionScore_image_v3 rnd a sz img"
proof -
  from assms(1) have "0 \<le> rnd 0" by blast
  then have "- 4 \<le> (rnd 0 - 0.5) * 8" by simp
  moreover have "0 \<le> addIf (anomalyCount_v3 (imgSignals img) \<ge> 3) 25" by simp
  moreover note anomalyRules_image_v3_nonneg [of "imgSignals img"]
    normalityRules_image_v3_lower [of "imgSignals img"]
    metadataRules_image_v3_lower [of sz img] deepfakeName_bonus(5) [OF assms(2)]
  ultimately show ?thesis
    unfolding suspicionScore_image_v3_def neutralName_simps [OF assms(3)]
    by linarith
qed


lemma fold_total:
  "fst (fold (\<lambda>x (t, fas). (t + g x, fas @ [h x])) xs (t0, fas0)) = t0 + sum_list (map g xs)"
  by (induction xs arbitrary: t0 fas0) (simp_all add: algebra_simps)

lemma frameSuspicion_v1_nonneg: "0 \<le> r \<Longrightarrow> 0 \<le> frameSuspicion_v1 r sg"
  unfolding frameSuspicion_v1_def by (intro add_nonneg_nonneg) simp_all

lemma frameSuspicion_v2_nonneg: "0 \<le> frameSuspicion_v2 sg"
  unfolding frameSuspicion_v2_def by (intro add_nonneg_nonneg) simp_all

lemma frameSuspicion_v3_nonneg: "0 \<le> frameSuspicion_v3 sg"
  unfolding frameSuspicion_v3_def by (intro add_nonneg_nonneg) simp_all

lemma frameLoop_v1_lower:
  assumes "\<forall>i. 0 \<le> rnd i \<and> rnd i < 1"
  shows "0 \<le> fst (frameLoop_v1 rnd frames)"
proof -
  let ?g = "\<lambda>(i, fr). frameSuspicion_v1 (rnd (i + 1)) (frameSig fr)"
  have "fst (frameLoop_v1 rnd frames)
      = rnd 0 * 25 + sum_list (map ?g (zip [0..<length frames] frames))"
    unfolding frameLoop_v1_def Let_def
    using fold_total [of ?g _ "zip [0..<length frames] frames" "rnd 0 * 25" "[]"]
    by (simp add: case_prod_unfold)
  moreover have "0 \<le> sum_list (map ?g (zip [0..<length frames] frames))"
    using assms by (intro sum_list_nonneg) (auto simp: frameSuspicion_v1_nonneg)
  moreover from assms have "0 \<le> rnd 0 * 25" by simp
  ultimately show ?thesis by linarith
qed

lemma frameLoop_v2_lower: "0 \<le> fst (frameLoop_v2 frames)"
proof -
  let ?g = "\<lambda>fr. frameSuspicion_v2 (frameSig fr)"
  have "fst (frameLoop_v2 frames) = 0 + sum_list (map ?g frames)"
    unfolding frameLoop_v2_def Let_def
    using fold_total [where g = ?g and xs = frames and ?t0.0 = 0 and ?fas0.0 = "[]"
        and h = "\<lambda>fr. \<lparr>faceDetection = faceDetectionScore (frameSig fr),
                   temporalConsistency = 0,
                   artifactDetection = artifactScore (frameSig fr),
                   imageQuality = qualityScore (frameSig fr),
                   neuralNetworkConfidence = frameSuspicion_v2 (frameSig fr)\<rparr>"]
    by simp
  moreover have "0 \<le> sum_list (map ?g frames)"
    by (intro sum_list_nonneg) (auto simp: frameSuspicion_v2_nonneg)
  ultimately show ?thesis by linarith
qed

lemma frameLoop_v3_lower: "10 \<le> fst (frameLoop_v3 frames)"
proof -
  let ?g = "\<lambda>fr. frameSuspicion_v3 (frameSig fr)"
  have "fst (frameLoop_v3 frames) = 10 + sum_list (map ?g frames)"
    unfolding frameLoop_v3_def Let_def
    using fold_total [where g = ?g and xs = frames and ?t0.0 = 10 and ?fas0.0 = "[]"
        and h = "\<lambda>fr. \<lparr>faceDetection = faceDetectionScore (frameSig fr),
                   temporalConsistency = 0,
                   artifactDetection = artifactScore (frameSig fr),
                   imageQuality = qualityScore (frameSig fr),
                   neuralNetworkConfidence = frameSuspicion_v3 (frameSig fr)\<rparr>"]
    by simp
  moreover have "0 \<le> sum_list (map ?g frames)"
    by (intro sum_list_nonneg) (auto simp: frameSuspicion_v3_nonneg)
  ultimately show ?thesis by linarith
qed

lemma total_video_v1_compare:
  assumes "\<forall>i. 0 \<le> rnd i \<and> rnd i < 1" and "deepfakeName a" and "neutralName b"
  shows "totalSuspicion_video_v1 rnd b frames < totalSuspicion_video_v1 rnd a frames
       \<and> 0 < totalSuspicion_video_v1 rnd a frames"
proof -
  obtain t fas where loop: "frameLoop_v1 rnd frames = (t, fas)" by fastforce
  with frameLoop_v1_lower [OF assms(1), of frames] have "0 \<le> t" by simp
  moreover have "0 \<le> addIf (calculateTemporalConsistency_v1 fas < 80) 50"
    "0 \<le> addIf (calculateTemporalConsistency_v1 fas < 60) 30"
    "0 \<le> addIf (rnd (length frames + 1) > 0.6) 35" by simp_all
  ultimately show ?thesis
    unfolding totalSuspicion_video_v1_def loop Let_def prod.case
      neutralName_simps [OF assms(3)] deepfakeName_bonus [OF assms(2)]
    by linarith
qed

lemma durationRule_v2_lower: "- 15 \<le> durationRule_v2 d"
  by (simp add: durationRule_v2_def)

lemma durationRule_v3_lower: "- 10 \<le> durationRule_v3 d"
  by (simp add: durationRule_v3_def)

lemma total_video_v2_compare:
  assumes "\<forall>i. 0 \<le> rnd i \<and> rnd i < 1" and "deepfakeName a" and "neutralName b"
  shows "totalSuspicion_video_v2 rnd b d frames < totalSuspicion_video_v2 rnd a d frames
       \<and> 0 < totalSuspicion_video_v2 rnd a d frames"
proof -
  obtain t fas where loop: "frameLoop_v2 frames = (t, fas)" by fastforce
  with frameLoop_v2_lower [of frames] have "0 \<le> t" by simp
  moreover have "0 \<le> addIf (calculateTemporalConsistency_v2 fas < 70) 60"
    "0 \<le> addIf (calculateTemporalConsistency_v2 fas < 50) 40" by simp_all
  moreover from assms(1) have "0 \<le> rnd 0" by blast
  then have "- 8 \<le> (rnd 0 - 0.5) * 15" by simp
  moreover note durationRule_v2_lower [of d]
  ultimately show ?thesis
    unfolding totalSuspicion_video_v2_def loop Let_def prod.case
      neutralName_simps [OF assms(3)] deepfakeName_bonus [OF assms(2)]
    by (auto simp: algebra_simps split: if_splits)
qed

lemma total_video_v3_compare:
  assumes "\<forall>i. 0 \<le> rnd i \<and> rnd i < 1" and "deepfakeName a" and "neutralName b"
  shows "totalSuspicion_video_v3 rnd b d frames < totalSuspicion_video_v3 rnd a d frames
       \<and> 0 < totalSuspicion_video_v3 rnd a d frames"
proof -
  obtain t fas where loop: "frameLoop_v3 frames = (t, fas)" by fastforce
  with frameLoop_v3_lower [of frames] have "10 \<le> t" by simp
  moreover have "0 \<le> addIf (calculateTemporalConsistency_v3 fas < 40) 50"
    "0 \<le> addIf (calculateTemporalConsistency_v3 fas < 25) 35" by simp_all
  moreover from assms(1) have "0 \<le> rnd 0" by blast
  then have "- 5 \<le> (rnd 0 - 0.5) * 10" by simp
  moreover note durationRule_v3_lower [of d]
  ultimately show ?thesis
    unfolding totalSuspicion_video_v3_def loop Let_def prod.case
      neutralName_simps [OF assms(3)] deepfakeName_bonus [OF assms(2)]
    by linarith
qed


lemma clampScore_compare:
  assumes "s' < s" and "0 < s"
  shows "clampScore s' \<le> clampScore s \<and> (clampScore s' < 100 \<longrightarrow> clampScore s' < clampScore s)"
  using assms clampScore_mono [of s' s] clampScore_strict [of s' s] by simp

lemma analyzeImage_compare:
  assumes "\<forall>i. 0 \<le> rnd i \<and> rnd i < 1" and "deepfakeName (fileName f)" and "neutralName n"
    and "analyzeImage ver rnd f = Resolved (c, an)"
    and "analyzeImage ver rnd (f\<lparr>fileName := n\<rparr>) = Resolved (c', an')"
  shows "c' \<le> c \<and> (c' < 100 \<longrightarrow> c' < c)"
proof (cases "asImage f")
  case None
  with assms(4) show ?thesis
    by (cases ver) (simp_all add: analyzeImage_v1_def analyzeImage_v2_def analyzeImage_v3_def
        loadImage_def)
next
  case (Some img)
  show ?thesis
  proof (cases ver)
    case V1
    with Some assms(4,5) have
      "c = clampScore (suspicionScore_image_v1 rnd (fileName f) (fileSize f) img)"
      "c' = clampScore (suspicionScore_image_v1 rnd n (fileSize f) img)"
      by (simp_all add: analyzeImage_v1_def loadImage_def Let_def)
    with score_image_v1_compare [OF assms(1-3), of "fileSize f" img] show ?thesis
      by (simp add: clampScore_compare)
  next
    case V2
    with Some assms(4,5) have
      "c = clampScore (suspicionScore_image_v2 rnd (fileName f) (fileSize f) img)"
      "c' = clampScore (suspicionScore_image_v2 rnd n (fileSize f) img)"
      by (simp_all add: analyzeImage_v2_def loadImage_def Let_def)
    with score_image_v2_compare [OF assms(1-3), of "fileSize f" img] show ?thesis
      by (simp add: clampScore_compare)
  next
    case V3
    with Some assms(4,5) have
      "c = clampScore (suspicionScore_image_v3 rnd (fileName f) (fileSize f) img)"
      "c' = clampScore (suspicionScore_image_v3 rnd n (fileSize f) img)"
      by (simp_all add: analyzeImage_v3_def loadImage_def Let_def)
    with score_image_v3_compare [OF assms(1-3), of "fileSize f" img] show ?thesis
      by (simp add: clampScore_compare)
  qed
qed

lemma analyzeVideo_compare:
  assumes "\<forall>i. 0 \<le> rnd i \<and> rnd i < 1" and "deepfakeName (fileName f)" and "neutralName n"
    and "analyzeVideo ver rnd f = Resolved (c, an)"
    and "analyzeVideo ver rnd (f\<lparr>fileName := n\<rparr>) = Resolved (c', an')"
  shows "c' \<le> c \<and> (c' < 100 \<longrightarrow> c' < c)"
proof -
  have same: "extractFramesFromVideo (f\<lparr>fileName := n\<rparr>) 5 = extractFramesFromVideo f 5"
    "getVideoDuration (f\<lparr>fileName := n\<rparr>) = getVideoDuration f"
    by (simp_all add: extractFramesFromVideo_def getVideoDuration_def)
  from assms(4) obtain frames where fr: "extractFramesFromVideo f 5 = Resolved frames"
    by (cases ver; cases "extractFramesFromVideo f 5")
       (simp_all add: analyzeVideo_v1_def analyzeVideo_v2_def analyzeVideo_v3_def)
  then have len: "real (length frames) = 5"
    using extractFrames_length [of f 5 frames] by simp
  have div: "s' / 5 < s / 5 \<and> 0 < s / 5" if "s' < s \<and> 0 < s" for s s' :: real
    using that by simp
  show ?thesis
  proof (cases ver)
    case V1
    with fr same assms(4,5) have
      "c = clampScore (totalSuspicion_video_v1 rnd (fileName f) frames / 5)"
      "c' = clampScore (totalSuspicion_video_v1 rnd n frames / 5)"
      by (simp_all add: analyzeVideo_v1_def Let_def len)
    with div [OF total_video_v1_compare [OF assms(1-3), of frames]] show ?thesis
      by (simp add: clampScore_compare)
  next
    case V2
    with fr same assms(4,5) have
      "c = clampScore (totalSuspicion_video_v2 rnd (fileName f) (getVideoDuration f) frames / 5)"
      "c' = clampScore (totalSuspicion_video_v2 rnd n (getVideoDuration f) frames / 5)"
      by (simp_all add: analyzeVideo_v2_def Let_def len)
    with div [OF total_video_v2_compare [OF assms(1-3), of "getVideoDuration f" frames]]
    show ?thesis by (simp add: clampScore_compare)
  next
    case V3
    with fr same assms(4,5) have
      "c = clampScore (totalSuspicion_video_v3 rnd (fileName f) (getVideoDuration f) frames / 5)"
      "c' = clampScore (totalSuspicion_video_v3 rnd n (getVideoDuration f) frames / 5)"
      by (simp_all add: analyzeVideo_v3_def Let_def len)
    with div [OF total_video_v3_compare [OF assms(1-3), of "getVideoDuration f" frames]]
    show ?thesis by (simp add: clampScore_compare)
  qed
qed

text \<open>
  Claim C3, as amended. Take two calls that differ in the file name only: same version,
  same file type, size, decoded media and signals, and the same random draws (each in
  the range of \<open>Math.random()\<close>). If one name contains \<open>deepfake\<close> in any letter case
  and the other is neutral, the confidence of the first is never smaller, and it is
  strictly greater unless the neutral call is already clamped at 100.
\<close>

theorem deepfake_name_confidence:
  assumes "\<forall>i. 0 \<le> rnd i \<and> rnd i < 1"
    and "deepfakeName (fileName f)" and "neutralName n"
    and "detectDeepfake ver ml t0 t1 rnd f = Resolved r"
    and "detectDeepfake ver ml t0' t1' rnd (f\<lparr>fileName := n\<rparr>) = Resolved r'"
  shows "confidence r' \<le> confidence r
       \<and> (confidence r' < 100 \<longrightarrow> confidence r' < confidence r)"
proof -
  from assms(4) obtain c an where
    src: "(if startsWith (fileType f) ''image/'' then analyzeImage ver rnd f
           else if startsWith (fileType f) ''video/'' then analyzeVideo ver rnd f
           else Rejected UnsupportedFileType) = Resolved (c, an)"
    and r: "confidence r = c"
    by (rule detectDeepfake_Resolved)
  let ?g = "f\<lparr>fileName := n\<rparr>"
  from assms(5) obtain c' an' where
    src0: "(if startsWith (fileType ?g) ''image/'' then analyzeImage ver rnd ?g
           else if startsWith (fileType ?g) ''video/'' then analyzeVideo ver rnd ?g
           else Rejected UnsupportedFileType) = Resolved (c', an')"
    and r': "confidence r' = c'"
    by (rule detectDeepfake_Resolved)
  have ft: "fileType ?g = fileType f" by simp
  from src0 have
    src': "(if startsWith (fileType f) ''image/'' then analyzeImage ver rnd ?g
           else if startsWith (fileType f) ''video/'' then analyzeVideo ver rnd ?g
           else Rejected UnsupportedFileType) = Resolved (c', an')"
    unfolding ft .
  have "c' \<le> c \<and> (c' < 100 \<longrightarrow> c' < c)"
  proof (cases "startsWith (fileType f) ''image/''")
    case True
    with src src' show ?thesis
      using analyzeImage_compare [OF assms(1-3)] by simp
  next
    case False
    with src src' show ?thesis
      using analyzeVideo_compare [OF assms(1-3)] by (simp split: if_splits)
  qed
  with r r' show ?thesis by simp
qed


lemma detect_image_v3:
  assumes "isModelsReady ml" and "startsWith (fileType f) ''image/''" and "asImage f = Some img"
  shows "\<exists>r. detectDeepfake V3 ml t0 t1 rnd f = Resolved r
           \<and> confidence r = clampScore (suspicionScore_image_v3 rnd (fileName f) (fileSize f) img)"
  using assms by (simp add: detectDeepfake_def analyzeImage_v3_def loadImage_def Let_def)

lemma readyLoader_ready: "isModelsReady readyLoader"
  by (simp add: isModelsReady_def readyLoader_def)

lemma lower_deepfake: "toLowerCase ''DeepFake_01.jpg'' = ''deepfake_01.jpg''"
  by (simp add: toLowerCase_def toLowerChar_def)

lemma lower_holiday: "toLowerCase ''holiday.jpg'' = ''holiday.jpg''"
  by (simp add: toLowerCase_def toLowerChar_def)

lemma deepfake_01_name: "deepfakeName ''DeepFake_01.jpg''"
  unfolding deepfakeName_def lower_deepfake by simp

lemma holiday_name: "neutralName ''holiday.jpg''"
  unfolding neutralName_def nameKeywords_def lower_holiday by simp

lemma deepfake_01_rule: "filenameRule_image_v3 ''DeepFake_01.jpg'' = 70"
  unfolding filenameRule_image_v3_def lower_deepfake Let_def by simp

lemma flat_scores:
  "suspicionScore_image_v3 (\<lambda>i. 1 / 2) ''DeepFake_01.jpg'' 51200
     \<lparr>imgWidth = 64, imgHeight = 64, imgSignals = flatSignals\<rparr> = 55"
  "suspicionScore_image_v3 (\<lambda>i. 1 / 2) ''holiday.jpg'' 51200
     \<lparr>imgWidth = 64, imgHeight = 64, imgSignals = flatSignals\<rparr> = - 15"
  by (simp_all add: suspicionScore_image_v3_def deepfake_01_rule
      neutralName_simps [OF holiday_name] anomalyRules_image_v3_def
      anomalyCount_v3_def normalityRules_image_v3_def metadataRules_image_v3_def
      aspectNormal_v3_def fileSizeMB_def flatSignals_def)

lemma detect_image_v1:
  assumes "isModelsReady ml" and "startsWith (fileType f) ''image/''" and "asImage f = Some img"
  shows "\<exists>r. detectDeepfake V1 ml t0 t1 rnd f = Resolved r
           \<and> confidence r = clampScore (suspicionScore_image_v1 rnd (fileName f) (fileSize f) img)"
  using assms by (simp add: detectDeepfake_def analyzeImage_v1_def loadImage_def Let_def)

lemma deepfake_01_rule_v1: "filenameRule_image_v1 ''DeepFake_01.jpg'' = 60"
  unfolding filenameRule_image_v1_def lower_deepfake Let_def by simp

lemma black_scores_v1:
  "suspicionScore_image_v1 (\<lambda>i. 0) ''DeepFake_01.jpg'' 51200
     \<lparr>imgWidth = 64, imgHeight = 64, imgSignals = blackSignals_v1\<rparr> = 210"
  "suspicionScore_image_v1 (\<lambda>i. 0) ''holiday.jpg'' 51200
     \<lparr>imgWidth = 64, imgHeight = 64, imgSignals = blackSignals_v1\<rparr> = 150"
  by (simp_all add: suspicionScore_image_v1_def deepfake_01_rule_v1
      neutralName_simps [OF holiday_name] signalRules_image_v1_def fileSizeRule_v1_def
      fileSizeMB_def blackSignals_v1_def)

theorem deepfake_name_confidence_witness:
  "deepfakeName (fileName deepfakePhotoFile) \<and> neutralName ''holiday.jpg''
   \<and> (\<exists>r r'. detectDeepfake V3 readyLoader 0 1 (\<lambda>i. 1 / 2) deepfakePhotoFile = Resolved r
         \<and> detectDeepfake V3 readyLoader 0 1 (\<lambda>i. 1 / 2)
              (deepfakePhotoFile\<lparr>fileName := ''holiday.jpg''\<rparr>) = Resolved r'
         \<and> confidence r = 55 \<and> confidence r' = 0 \<and> confidence r' < confidence r)"
proof -
  let ?rnd = "\<lambda>i::nat. 1 / 2 :: real"
  let ?img = "\<lparr>imgWidth = 64, imgHeight = 64, imgSignals = flatSignals\<rparr>"
  let ?g = "deepfakePhotoFile\<lparr>fileName := ''holiday.jpg''\<rparr>"
  have rnd: "\<forall>i. 0 \<le> ?rnd i \<and> ?rnd i < 1" by simp
  have dn: "deepfakeName (fileName deepfakePhotoFile)"
    by (simp add: deepfakePhotoFile_def deepfake_01_name)
  have ty: "startsWith (fileType deepfakePhotoFile) ''image/''"
    "startsWith (fileType ?g) ''image/''"
    by (simp_all add: deepfakePhotoFile_def photoFile_def startsWith_def)
  have im: "asImage deepfakePhotoFile = Some ?img" "asImage ?g = Some ?img"
    by (simp_all add: deepfakePhotoFile_def photoFile_def)
  from detect_image_v3 [OF readyLoader_ready ty(1) im(1), of 0 1 ?rnd]
  obtain r where r: "detectDeepfake V3 readyLoader 0 1 ?rnd deepfakePhotoFile = Resolved r"
    and cr: "confidence r = 55"
    by (auto simp: deepfakePhotoFile_def photoFile_def flat_scores clampScore_def)
  from detect_image_v3 [OF readyLoader_ready ty(2) im(2), of 0 1 ?rnd]
  obtain r' where r': "detectDeepfake V3 readyLoader 0 1 ?rnd ?g = Resolved r'"
    and cr': "confidence r' = 0"
    by (auto simp: deepfakePhotoFile_def photoFile_def flat_scores clampScore_def)
  from deepfake_name_confidence [OF rnd dn holiday_name r r'] cr cr'
  have "confidence r' < confidence r" by simp
  with dn holiday_name r r' cr cr' show ?thesis by blast
qed

text \<open>
  The claim as stated fails in version 1 on a picture that is black all over: with the
  jitter disabled (every draw 0) the signals and the file size alone give the neutral
  name 150 before clamping, and the name with \<open>deepfake\<close> 210; both calls return the
  confidence 100.
\<close>

theorem deepfake_name_counterexample:
  "deepfakeName (fileName blackPhotoFile) \<and> neutralName ''holiday.jpg''
   \<and> (\<exists>r r'. detectDeepfake V1 readyLoader 0 1 (\<lambda>i. 0) blackPhotoFile = Resolved r
         \<and> detectDeepfake V1 readyLoader 0 1 (\<lambda>i. 0)
              (blackPhotoFile\<lparr>fileName := ''holiday.jpg''\<rparr>) = Resolved r'
         \<and> confidence r = 100 \<and> confidence r' = 100 \<and> \<not> confidence r' < confidence r)"
proof -
  let ?rnd = "\<lambda>i::nat. 0 :: real"
  let ?img = "\<lparr>imgWidth = 64, imgHeight = 64, imgSignals = blackSignals_v1\<rparr>"
  let ?g = "blackPhotoFile\<lparr>fileName := ''holiday.jpg''\<rparr>"
  have dn: "deepfakeName (fileName blackPhotoFile)"
    by (simp add: blackPhotoFile_def deepfake_01_name)
  have ty: "startsWith (fileType blackPhotoFile) ''image/''"
    "startsWith (fileType ?g) ''image/''"
    by (simp_all add: blackPhotoFile_def startsWith_def)
  have im: "asImage blackPhotoFile = Some ?img" "asImage ?g = Some ?img"
    by (simp_all add: blackPhotoFile_def)
  from detect_image_v1 [OF readyLoader_ready ty(1) im(1), of 0 1 ?rnd]
  obtain r where r: "detectDeepfake V1 readyLoader 0 1 ?rnd blackPhotoFile = Resolved r"
    and cr: "confidence r = 100"
    by (auto simp: blackPhotoFile_def black_scores_v1 clampScore_def)
  from detect_image_v1 [OF readyLoader_ready ty(2) im(2), of 0 1 ?rnd]
  obtain r' where r': "detectDeepfake V1 readyLoader 0 1 ?rnd ?g = Resolved r'"
    and cr': "confidence r' = 100"
    by (auto simp: blackPhotoFile_def black_scores_v1 clampScore_def)
  from cr cr' have "\<not> confidence r' < confidence r" by simp
  with dn holiday_name r r' cr cr' show ?thesis by blast
qed

subsection \<open>Face and skin ratio\<close>

lemma count_fold:
  "fold (\<lambda>x (s, f). if P x then (if Q x then s + 1 else s, f + 1) else (s, f)) xs (s0, f0)
     = (s0 + length (filter (\<lambda>x. P x \<and> Q x) xs), f0 + length (filter P xs))"
  by (induction xs arbitrary: s0 f0) simp_all

lemma nested_count:
  "fold (\<lambda>y. fold (\<lambda>x (s, f). if P x y then (if Q x y then s + 1 else s, f + 1) else (s, f)) xs)
      ys (s0, f0)
   = (s0 + length (filter (\<lambda>(x, y). P x y \<and> Q x y) (concat (map (\<lambda>y. map (\<lambda>x. (x, y)) xs) ys))),
      f0 + length (filter (\<lambda>(x, y). P x y) (concat (map (\<lambda>y. map (\<lambda>x. (x, y)) xs) ys))))"
proof (induction ys arbitrary: s0 f0)
  case Nil
  show ?case by simp
next
  case (Cons y ys)
  have inner: "fold (\<lambda>x (s, f). if P x y then (if Q x y then s + 1 else s, f + 1) else (s, f))
        xs (s0, f0)
      = (s0 + length (filter (\<lambda>x. P x y \<and> Q x y) xs), f0 + length (filter (\<lambda>x. P x y) xs))"
    by (rule count_fold)
  show ?case
    by (simp add: inner Cons.IH filter_map comp_def)
qed

lemma faceLoop_counts: "faceLoop isSkinTone d = (skinPixels isSkinTone d, regionPixels d)"
  unfolding faceLoop_def skinPixels_def regionPixels_def pixelCoords_def Let_def
  using nested_count [of "\<lambda>x y. inFaceRegion d x y"
      "\<lambda>x y. skinAt isSkinTone d ((y * width d + x) * 4)" "[0..<width d]" "[0..<height d]" 0 0]
  by simp

lemma isSkinTone_v2_eq:
  "isSkinTone_v2 = (\<lambda>r g b. rgbSkin r g b \<or> ycbcrSkin r g b \<or> hsvSkin r g b)"
  by (intro ext) (simp add: isSkinTone_v2_def)

lemma isSkinTone_v3_eq: "isSkinTone_v3 = (\<lambda>r g b. rgbSkin r g b \<or> ycbcrSkin r g b)"
  by (intro ext) (simp add: isSkinTone_v3_def)

text \<open>
  Claim C6, as amended. Both extractors count the pixels inside the circle of radius
  \<open>min(width, height) / 4\<close> around the centre of the frame and, among them, the pixels
  classified as skin; the ratio is the rounded quotient of the two counts, and 0 when
  the region holds no pixel. Version 2 classifies a pixel as skin by the RGB test or the
  YCbCr test or a third, HSV test, and returns \<open>min(100, ratio * 200)\<close>; with no skin
  pixel it returns 0. Version 3 classifies by the RGB test or the YCbCr test and returns
  \<open>min(100, max(30, ratio * 150 + 20))\<close>; with no skin pixel it returns 30. The
  products and the sum are those of double-precision arithmetic.
\<close>

theorem face_analysis_formula:
  "performFaceAnalysis_v2 rnd (Some d)
     = min 100 (fl (skinRatio (\<lambda>r g b. rgbSkin r g b \<or> ycbcrSkin r g b \<or> hsvSkin r g b) d
                    * 200))
   \<and> performFaceAnalysis_v3 rnd (Some d)
     = min 100 (max 30 (fl (fl (skinRatio (\<lambda>r g b. rgbSkin r g b \<or> ycbcrSkin r g b) d * 150)
                             + 20)))
   \<and> (skinPixels (\<lambda>r g b. rgbSkin r g b \<or> ycbcrSkin r g b \<or> hsvSkin r g b) d = 0
        \<longrightarrow> performFaceAnalysis_v2 rnd (Some d) = 0)
   \<and> (skinPixels (\<lambda>r g b. rgbSkin r g b \<or> ycbcrSkin r g b) d = 0
        \<longrightarrow> performFaceAnalysis_v3 rnd (Some d) = 30)"
proof -
  have v2: "performFaceAnalysis_v2 rnd (Some d) = min 100 (fl (skinRatio isSkinTone_v2 d * 200))"
    by (simp add: performFaceAnalysis_v2_def faceLoop_counts skinRatio_def)
  have v3: "performFaceAnalysis_v3 rnd (Some d)
      = min 100 (max 30 (fl (fl (skinRatio isSkinTone_v3 d * 150) + 20)))"
    by (simp add: performFaceAnalysis_v3_def faceLoop_counts skinRatio_def)
  have z2: "performFaceAnalysis_v2 rnd (Some d) = 0" if "skinPixels isSkinTone_v2 d = 0"
    using that by (simp add: v2 skinRatio_def)
  have z3: "performFaceAnalysis_v3 rnd (Some d) = 30" if "skinPixels isSkinTone_v3 d = 0"
    using that by (simp add: v3 skinRatio_def)
  show ?thesis
    using v2 v3 z2 z3 unfolding isSkinTone_v2_eq isSkinTone_v3_eq by blast
qed

text \<open>The cleared canvas: only the pixel at its centre lies in the region.\<close>

lemma fl_sqrt_outside: "1 \<le> a \<Longrightarrow> \<not> fl (sqrt a) < 1"
  using fl_sqrt_ge [of 1 a] by simp

lemma upt4: "[0..<4] = [0, 1, 2, 3]"
  by (simp add: upt_rec)

lemma literal_pos: "0 < fl 0.23" "0 < fl 0.35"
proof -
  have "(2::real) powi (- 1075) < 2 powi (- 3)" by (rule pow2_strict_mono) simp
  then have "(2::real) powi (- 1075) < 0.23" "(2::real) powi (- 1075) < 0.35" by simp_all
  then show "0 < fl 0.23" "0 < fl 0.35" by (simp_all only: fl_pos_iff)
qed

lemma black_not_skin:
  "\<not> rgbSkin 0 0 0" "\<not> ycbcrSkin 0 0 0" "\<not> hsvSkin 0 0 0"
  using literal_pos by (simp_all add: rgbSkin_def ycbcrSkin_def hsvSkin_def Let_def)

lemma four_by_four_region:
  assumes "width d = 4" and "height d = 4" and "x < 4" and "y < 4"
  shows "inFaceRegion d x y \<longleftrightarrow> x = 2 \<and> y = 2"
proof -
  from assms(3,4) have "x \<in> {0, 1, 2, 3}" "y \<in> {0, 1, 2, 3}" by auto
  then show ?thesis
    by (auto simp: inFaceRegion_def assms(1,2) Let_def fl_sqrt_outside)
qed

lemma four_by_four_counts:
  assumes "width d = 4" and "height d = 4"
  shows "regionPixels d = 1"
    and "skinPixels isSkinTone d = (if skinAt isSkinTone d 40 then 1 else 0)"
  by (simp_all add: regionPixels_def skinPixels_def pixelCoords_def assms upt4
      four_by_four_region [OF assms])

lemma blackImage_counts:
  "regionPixels blackImage = 1"
  "skinPixels isSkinTone_v2 blackImage = 0"
  "skinPixels isSkinTone_v3 blackImage = 0"
proof -
  have w: "width blackImage = 4" "height blackImage = 4" by (simp_all add: blackImage_def)
  have ch: "channelAt blackImage i = (if i < 64 then Some 0 else None)" for i
    by (simp add: channelAt_def blackImage_def)
  show "regionPixels blackImage = 1"
    by (rule four_by_four_counts(1) [OF w])
  show "skinPixels isSkinTone_v2 blackImage = 0"
    by (simp add: four_by_four_counts(2) [OF w] skinAt_def ch isSkinTone_v2_def black_not_skin)
  show "skinPixels isSkinTone_v3 blackImage = 0"
    by (simp add: four_by_four_counts(2) [OF w] skinAt_def ch isSkinTone_v3_def black_not_skin)
qed

theorem face_analysis_formula_witness:
  "regionPixels blackImage = 1
   \<and> skinPixels (\<lambda>r g b. rgbSkin r g b \<or> ycbcrSkin r g b \<or> hsvSkin r g b) blackImage = 0
   \<and> skinPixels (\<lambda>r g b. rgbSkin r g b \<or> ycbcrSkin r g b) blackImage = 0
   \<and> performFaceAnalysis_v2 0 (Some blackImage) = 0
   \<and> performFaceAnalysis_v3 0 (Some blackImage) = 30"
  using face_analysis_formula [of 0 blackImage] blackImage_counts
  unfolding isSkinTone_v2_eq isSkinTone_v3_eq by simp

text \<open>
  The pixel (100, 95, 70) passes the HSV test alone: its hue is rounded to 50, and its
  \<open>Cr\<close> is rounded to a double below 133.
\<close>

lemma cr_warm_pixel:
  "fl (fl (fl (fl (0.5 * 100) - fl (fl 0.419 * 95)) - fl (fl 0.081 * 70)) + 128) =
    4662808911072461 / 35184372088832"
proof -
  have c1: "fl (0.5 * 100) = 50"
    by (subst fl_at [where e = "5"]) (simp_all add: rne_def power_int_minus)
  have c2: "fl 0.419 = 7548032975472951 / 18014398509481984"
    by (subst fl_at [where e = "- 2"]) (simp_all add: rne_def power_int_minus)
  have c3: "fl (7548032975472951 / 18014398509481984 * 95) = 5602055723983831 / 140737488355328"
    by (subst fl_at [where e = "5"]) (simp_all add: rne_def power_int_minus)
  have c4: "fl (50 - 5602055723983831 / 140737488355328) = 1434818693782569 / 140737488355328"
    by (subst fl_at [where e = "3"]) (simp_all add: rne_def power_int_minus)
  have c5: "fl 0.081 = 5836665117072163 / 72057594037927936"
    by (subst fl_at [where e = "- 4"]) (simp_all add: rne_def power_int_minus)
  have c6: "fl (5836665117072163 / 72057594037927936 * 70) = 3191926235898839 / 562949953421312"
    by (subst fl_at [where e = "2"]) (simp_all add: rne_def power_int_minus)
  have c7: "fl (1434818693782569 / 140737488355328 - 3191926235898839 / 562949953421312)
      = 2547348539231437 / 562949953421312"
    by (subst fl_at [where e = "2"]) (simp_all add: rne_def power_int_minus)
  have c8: "fl (2547348539231437 / 562949953421312 + 128) = 4662808911072461 / 35184372088832"
    by (subst fl_at [where e = "7"]) (simp_all add: rne_def power_int_minus)
  show ?thesis by (simp only: c1 c2 c3 c4 c5 c6 c7 c8)
qed

lemma hue_warm_pixel: "fl (jsRem (fl (fl (95 - 70) / fl (100 - 70))) 6 * 60) = 50"
proof -
  have h1: "fl ((95::real) - 70) = 25" "fl ((100::real) - 70) = 30" by simp_all
  have h2: "fl (25 / 30) = 7505999378950827 / 9007199254740992"
    by (subst fl_at [where e = "- 1"]) (simp_all add: rne_def power_int_minus)
  have h3: "jsRem (7505999378950827 / 9007199254740992) 6 = 7505999378950827 / 9007199254740992"
    by (simp add: jsRem_def)
  have h4: "fl (7505999378950827 / 9007199254740992 * 60) = 50"
    by (subst fl_at [where e = "5"]) (simp_all add: rne_def power_int_minus)
  show ?thesis by (simp only: h1 h2 h3 h4)
qed

lemma hsv_only_pixel:
  "hsvSkin 100 95 70" "\<not> rgbSkin 100 95 70" "\<not> ycbcrSkin 100 95 70"
proof -
  have m: "max (100::real) (max 95 70) = 100" "min (100::real) (min 95 70) = 70" by simp_all
  have d: "fl ((100::real) - 70) = 30" by simp
  have s: "fl 0.23 \<le> fl (30 / 100)" "fl (30 / 100) \<le> fl 0.68"
    "fl 0.35 \<le> fl (100 / 255)" "fl (100 / 255) \<le> fl 0.95"
    by (rule fl_mono, simp)+
  have "hsvSkin 100 95 70 \<longleftrightarrow>
      (let h1 = fl (jsRem (fl (fl (95 - 70) / fl (100 - 70))) 6 * 60);
           h = (if h1 < 0 then fl (h1 + 360) else h1)
       in (h \<ge> 0 \<and> h \<le> 50) \<and> fl (30 / 100) \<ge> fl 0.23 \<and> fl (30 / 100) \<le> fl 0.68
          \<and> fl (100 / 255) \<ge> fl 0.35 \<and> fl (100 / 255) \<le> fl 0.95)"
    unfolding hsvSkin_def Let_def m d by simp
  also have "\<dots>" unfolding hue_warm_pixel Let_def using s by simp
  finally show "hsvSkin 100 95 70" by simp
  show "\<not> rgbSkin 100 95 70" by (simp add: rgbSkin_def)
  have "\<not> (133::real) \<le> 4662808911072461 / 35184372088832" by simp
  then show "\<not> ycbcrSkin 100 95 70"
    unfolding ycbcrSkin_def Let_def cr_warm_pixel by blast
qed

text \<open>
  The rounding decides the YCbCr test: over the reals the \<open>Cb\<close> of the pixel
  (202, 202, 100) is 77, inside the range; the rounded operations give the double just
  below 77, and the pixel is not skin. On the buffer of that one colour version 2
  returns 0 and version 3 returns 30.
\<close>

lemma cb_olive_pixel:
  "fl (fl (fl (fl (- fl 0.169 * 202) - fl (fl 0.331 * 202)) + fl (0.5 * 100)) + 128) =
    5418393301680127 / 70368744177664"
proof -
  have c1: "fl 0.169 = 6088866696204911 / 36028797018963968"
    by (subst fl_at [where e = "- 3"]) (simp_all add: rne_def power_int_minus)
  have c2: "fl (- (6088866696204911 / 36028797018963968) * 202)
      = - (1201124094368547 / 35184372088832)"
    by (subst fl_at [where e = "5"]) (simp_all add: rne_def power_int_minus)
  have c3: "fl 0.331 = 5962765906638537 / 18014398509481984"
    by (subst fl_at [where e = "- 2"]) (simp_all add: rne_def power_int_minus)
  have c4: "fl (5962765906638537 / 18014398509481984 * 202) = 4704994973206971 / 70368744177664"
    by (subst fl_at [where e = "6"]) (simp_all add: rne_def power_int_minus)
  have c5: "fl (- (1201124094368547 / 35184372088832) - 4704994973206971 / 70368744177664)
      = - (7107243161944065 / 70368744177664)"
    by (subst fl_at [where e = "6"]) (simp_all add: rne_def power_int_minus)
  have c6: "fl (0.5 * 100) = 50"
    by (subst fl_at [where e = "5"]) (simp_all add: rne_def power_int_minus)
  have c7: "fl (- (7107243161944065 / 70368744177664) + 50)
      = - (3588805953060865 / 70368744177664)"
    by (subst fl_at [where e = "5"]) (simp_all add: rne_def power_int_minus)
  have c8: "fl (- (3588805953060865 / 70368744177664) + 128)
      = 5418393301680127 / 70368744177664"
    by (subst fl_at [where e = "6"]) (simp_all add: rne_def power_int_minus)
  show ?thesis by (simp only: c1 c2 c3 c4 c5 c6 c7 c8)
qed

lemma olive_pixel_not_skin:
  "- 0.169 * 202 - 0.331 * 202 + 0.5 * 100 + 128 = (77::real)"
  "\<not> ycbcrSkin 202 202 100" "\<not> isSkinTone_v2 202 202 100" "\<not> isSkinTone_v3 202 202 100"
proof -
  show "- 0.169 * 202 - 0.331 * 202 + 0.5 * 100 + 128 = (77::real)" by simp
  have "\<not> (77::real) \<le> 5418393301680127 / 70368744177664" by simp
  then show y: "\<not> ycbcrSkin 202 202 100"
    unfolding ycbcrSkin_def Let_def cb_olive_pixel by blast
  have r: "\<not> rgbSkin 202 202 100" by (simp add: rgbSkin_def)
  have "fl (fl ((202::real) - 100) / fl (202 - 100)) = 1" by simp
  then have h: "\<not> hsvSkin 202 202 100"
    by (simp add: hsvSkin_def Let_def jsRem_def)
  from y r h show "\<not> isSkinTone_v2 202 202 100" "\<not> isSkinTone_v3 202 202 100"
    by (simp_all add: isSkinTone_v2_def isSkinTone_v3_def)
qed

lemma oliveImage_result:
  "performFaceAnalysis_v2 rnd (Some oliveImage) = 0"
  "performFaceAnalysis_v3 rnd (Some oliveImage) = 30"
proof -
  have w: "width oliveImage = 4" "height oliveImage = 4" by (simp_all add: oliveImage_def)
  have ch: "channelAt oliveImage 40 = Some 202" "channelAt oliveImage 41 = Some 202"
    "channelAt oliveImage 42 = Some 100"
    by (simp_all add: channelAt_def oliveImage_def)
  have "skinPixels isSkinTone_v2 oliveImage = 0" "skinPixels isSkinTone_v3 oliveImage = 0"
    by (simp_all add: four_by_four_counts(2) [OF w] skinAt_def ch olive_pixel_not_skin)
  then show "performFaceAnalysis_v2 rnd (Some oliveImage) = 0"
    "performFaceAnalysis_v3 rnd (Some oliveImage) = 30"
    by (simp_all add: performFaceAnalysis_v2_def performFaceAnalysis_v3_def faceLoop_counts
        four_by_four_counts(1) [OF w])
qed

text \<open>
  The claim as stated fails in version 3 on the cleared canvas: the region holds one
  pixel, none is skin, and the extractor returns 30, which is \<open>min(100, 0 * k)\<close> for no
  \<open>k\<close>. It fails in version 2 on the classification: the pixel (100, 95, 70) passes
  neither the RGB nor the YCbCr test and is classified as skin.
\<close>

theorem face_analysis_counterexample:
  "skinPixels isSkinTone_v3 blackImage = 0 \<and> regionPixels blackImage = 1
   \<and> performFaceAnalysis_v3 0 (Some blackImage) = 30
   \<and> (\<forall>k. performFaceAnalysis_v3 0 (Some blackImage)
            \<noteq> min 100 (fl (fl (real (skinPixels isSkinTone_v3 blackImage)
                                  / real (regionPixels blackImage)) * k)))
   \<and> isSkinTone_v2 100 95 70 \<and> \<not> (rgbSkin 100 95 70 \<or> ycbcrSkin 100 95 70)"
proof -
  have "performFaceAnalysis_v3 0 (Some blackImage) = 30"
    by (simp add: performFaceAnalysis_v3_def faceLoop_counts blackImage_counts)
  then show ?thesis
    by (simp add: blackImage_counts isSkinTone_v2_def hsv_only_pixel)
qed

subsection \<open>Color consistency\<close>

lemma forFrom_invariant:
  assumes "I s" and "lo \<le> v0"
    and "\<And>v s. lo \<le> v \<Longrightarrow> v < bound \<Longrightarrow> I s \<Longrightarrow> I (body v s)"
  shows "I (forFrom v0 bound body s)"
  using assms
proof (induction v0 bound body s rule: forFrom.induct)
  case (1 v bound body s)
  show ?case
  proof (cases "v < bound")
    case True
    then have "forFrom v bound body s = forFrom (v + 1) bound body (body v s)"
      by (subst forFrom.simps) simp
    moreover have "I (forFrom (v + 1) bound body (body v s))"
    proof (rule "1.IH" [OF True])
      show "I (body v s)" using True "1.prems" by blast
      show "lo \<le> v + 1" using "1.prems"(2) by simp
      show "\<And>v s. lo \<le> v \<Longrightarrow> v < bound \<Longrightarrow> I s \<Longrightarrow> I (body v s)"
        using "1.prems"(3) by blast
    qed
    ultimately show ?thesis by simp
  next
    case False
    then have "forFrom v bound body s = s" by (subst forFrom.simps) simp
    with "1.prems" show ?thesis by simp
  qed
qed

lemma pixel_index_bound:
  assumes "fx < (w::nat)" and "fy < h"
  shows "fy * w + fx < w * h"
proof -
  have "fy * w + fx < fy * w + w" using assms(1) by simp
  also have "\<dots> = (fy + 1) * w" by simp
  also have "\<dots> \<le> h * w" using assms(2) by (intro mult_le_mono1) simp
  finally show ?thesis by (simp add: mult.commute)
qed

lemma regionStep_uniform:
  assumes wf: "wellFormed d" and un: "uniformColor d cr cg cb"
    and x: "0 \<le> x" "x < real (width d)" and y: "0 \<le> y" "y < real (height d)"
    and acc: "uniformAcc (real (unat cr)) (real (unat cg)) (real (unat cb)) s"
  shows "uniformAcc (real (unat cr)) (real (unat cg)) (real (unat cb)) (regionStep d y x s)
       \<and> 0 < snd (snd (snd (regionStep d y x s)))"
proof -
  obtain rs gs bs n where s: "s = (rs, gs, bs, n)" by (cases s) auto
  let ?p = "nat \<lfloor>y\<rfloor> * width d + nat \<lfloor>x\<rfloor>"
  define idx where "idx = ?p * 4"
  have idx4: "idx = 4 * ?p" by (simp add: idx_def)
  have "nat \<lfloor>x\<rfloor> < width d" using x by (simp add: floor_less_iff nat_less_iff)
  moreover have "nat \<lfloor>y\<rfloor> < height d" using y by (simp add: floor_less_iff nat_less_iff)
  ultimately have p: "?p < width d * height d" by (rule pixel_index_bound)
  with wf have len: "idx + 2 < length (data d)" by (simp add: wellFormed_def idx4)
  from un p have col: "data d ! idx = cr" "data d ! (idx + 1) = cg" "data d ! (idx + 2) = cb"
    unfolding uniformColor_def idx4 by blast+
  from len col have ch: "channelAt d idx = Some (real (unat cr))"
    "channelAt d (idx + 1) = Some (real (unat cg))"
    "channelAt d (idx + 2) = Some (real (unat cb))"
    by (simp_all add: channelAt_def)
  have "regionStep d y x s =
      (addN rs (channelAt d idx), addN gs (channelAt d (idx + 1)),
       addN bs (channelAt d (idx + 2)), n + 1)"
    unfolding regionStep_def s Let_def idx_def by simp
  with acc show ?thesis
    unfolding ch by (simp add: s uniformAcc_def algebra_simps)
qed


lemma forFrom_first:
  "v < bound \<Longrightarrow> forFrom v bound body s = forFrom (v + 1) bound body (body v s)"
  by (subst forFrom.simps) simp

lemma regionRow_uniform:
  assumes wf: "wellFormed d" and un: "uniformColor d cr cg cb"
    and x: "0 \<le> x0" "0 < w0" "x0 + w0 \<le> real (width d)"
    and y: "0 \<le> y" "y < real (height d)"
    and acc: "uniformAcc (real (unat cr)) (real (unat cg)) (real (unat cb)) s"
  shows "uniformAcc (real (unat cr)) (real (unat cg)) (real (unat cb))
           (forFrom x0 (x0 + w0) (regionStep d y) s)
       \<and> 0 < snd (snd (snd (forFrom x0 (x0 + w0) (regionStep d y) s)))"
    (is "?J (forFrom x0 (x0 + w0) (regionStep d y) s)")
proof -
  have step: "?J (regionStep d y x s')"
    if "x0 \<le> x" "x < x0 + w0" "uniformAcc (real (unat cr)) (real (unat cg)) (real (unat cb)) s'"
    for x s'
    using that x y by (intro regionStep_uniform [OF wf un]) auto
  have first: "forFrom x0 (x0 + w0) (regionStep d y) s
      = forFrom (x0 + 1) (x0 + w0) (regionStep d y) (regionStep d y x0 s)"
    using x(2) by (intro forFrom_first) simp
  have "?J (regionStep d y x0 s)" using x(2) acc by (intro step) simp_all
  then have "?J (forFrom (x0 + 1) (x0 + w0) (regionStep d y) (regionStep d y x0 s))"
    by (rule forFrom_invariant [where lo = x0]) (use step in auto)
  with first show ?thesis by simp
qed

lemma regionStats_uniform:
  assumes wf: "wellFormed d" and un: "uniformColor d cr cg cb"
    and x: "0 \<le> rx reg" "0 < rw reg" "rx reg + rw reg \<le> real (width d)"
    and y: "0 \<le> ry reg" "0 < rh reg" "ry reg + rh reg \<le> real (height d)"
  shows "regionStats d reg
      = (Some (real (unat cr)), Some (real (unat cg)), Some (real (unat cb)))"
proof -
  let ?U = "uniformAcc (real (unat cr)) (real (unat cg)) (real (unat cb))"
  let ?J = "\<lambda>s. ?U s \<and> 0 < snd (snd (snd s))"
  let ?row = "\<lambda>y. forFrom (rx reg) (rx reg + rw reg) (regionStep d y)"
  let ?s0 = "(Some 0, Some 0, Some 0, 0) :: real option \<times> real option \<times> real option \<times> nat"
  have row: "?J (?row v s)" if "ry reg \<le> v" "v < ry reg + rh reg" "?U s" for v s
    using that x y by (intro regionRow_uniform [OF wf un]) auto
  have "?U ?s0" by (simp add: uniformAcc_def)
  then have "?J (?row (ry reg) ?s0)" using y(2) by (intro row) simp_all
  then have "?J (forFrom (ry reg + 1) (ry reg + rh reg) ?row (?row (ry reg) ?s0))"
    by (rule forFrom_invariant [where lo = "ry reg"]) (use row in auto)
  moreover have "forFrom (ry reg) (ry reg + rh reg) ?row ?s0
      = forFrom (ry reg + 1) (ry reg + rh reg) ?row (?row (ry reg) ?s0)"
    using y(2) by (intro forFrom_first) simp
  ultimately have J: "?J (forFrom (ry reg) (ry reg + rh reg) ?row ?s0)" by simp
  obtain rs gs bs n where res: "forFrom (ry reg) (ry reg + rh reg) ?row ?s0 = (rs, gs, bs, n)"
    by (cases "forFrom (ry reg) (ry reg + rh reg) ?row ?s0") auto
  with J have "rs = Some (real n * real (unat cr))" "gs = Some (real n * real (unat cg))"
    "bs = Some (real n * real (unat cb))" "0 < n"
    by (simp_all add: uniformAcc_def)
  then show ?thesis
    by (simp add: regionStats_def res meanN_def)
qed

lemma totalDifference_equal: "totalDifference [(Some r, Some g, Some b), (Some r, Some g, Some b),
    (Some r, Some g, Some b), (Some r, Some g, Some b)] = Some 0"
  by (simp add: totalDifference_def upt4 upt_rec statDiff_def)


text \<open>
  Claim C8. For every buffer filled with one colour (a well-formed buffer all of whose
  pixels have the same R, G and B samples), the colour-consistency extractor returns
  exactly 100, in version 2 and in version 3: every read is inside the buffer, the four
  quadrant means are equal, all six pairwise differences are 0 and the score is
  \<open>100 - 0\<close>. Version 1 has no such extractor.
\<close>

theorem color_consistency_uniform:
  assumes "wellFormed d" and "uniformColor d r g b"
  shows "analyzeColorConsistency_v2 rnd (Some d) = Some 100
       \<and> analyzeColorConsistency_v3 rnd (Some d) = Some 100"
proof -
  from assms(1) have pos: "0 < real (width d)" "0 < real (height d)"
    by (simp_all add: wellFormed_def)
  let ?st = "(Some (real (unat r)), Some (real (unat g)), Some (real (unat b)))"
  have "regionStats d reg = ?st" if "reg \<in> set (regions d)" for reg
    using that pos by (intro regionStats_uniform [OF assms]) (auto simp: regions_def)
  then have "map (regionStats d) (regions d) = [?st, ?st, ?st, ?st]"
    by (simp add: regions_def)
  then have "totalDifference (map (regionStats d) (regions d)) = Some 0"
    by (simp only: totalDifference_equal)
  then show ?thesis
    by (simp add: analyzeColorConsistency_v2_def analyzeColorConsistency_v3_def)
qed

lemma quad_nth:
  assumes "p < n"
  shows "concat (replicate n [a, b, c, e]) ! (4 * p) = a
       \<and> concat (replicate n [a, b, c, e]) ! (4 * p + 1) = b
       \<and> concat (replicate n [a, b, c, e]) ! (4 * p + 2) = c"
  using assms
proof (induction n arbitrary: p)
  case 0
  then show ?case by simp
next
  case (Suc n)
  show ?case
  proof (cases p)
    case 0
    then show ?thesis by simp
  next
    case (Suc q)
    with Suc.prems have "q < n" by simp
    from Suc.IH [OF this] show ?thesis
      by (simp add: Suc nth_append nth_Cons')
  qed
qed

lemma grayImage_wellFormed: "wellFormed grayImage"
  by (simp add: wellFormed_def grayImage_def length_concat sum_list_replicate)

lemma grayImage_uniform: "uniformColor grayImage 128 128 128"
proof -
  have "concat (replicate 4096 [128, 128, 128, 255 :: 8 word]) ! (4 * p) = 128
      \<and> concat (replicate 4096 [128, 128, 128, 255 :: 8 word]) ! (4 * p + 1) = 128
      \<and> concat (replicate 4096 [128, 128, 128, 255 :: 8 word]) ! (4 * p + 2) = 128"
    if "p < 4096" for p
    using that by (rule quad_nth)
  then show ?thesis
    by (simp add: uniformColor_def grayImage_def)
qed

theorem color_consistency_uniform_witness:
  "wellFormed grayImage \<and> uniformColor grayImage 128 128 128
   \<and> analyzeColorConsistency_v2 0 (Some grayImage) = Some 100
   \<and> analyzeColorConsistency_v3 0 (Some grayImage) = Some 100"
  using color_consistency_uniform [OF grayImage_wellFormed grayImage_uniform, of 0]
    grayImage_wellFormed grayImage_uniform
  by simp

subsection \<open>Edge consistency\<close>

lemma edgeRow_noEdges:
  assumes "list_all (\<lambda>x. \<not> edge x y) xs"
  shows "fold (\<lambda>x (consistentEdges, totalEdges).
             if edge x y
             then (if consistent x y then consistentEdges + 1 else consistentEdges,
                   totalEdges + 1)
             else (consistentEdges, totalEdges)) xs s = s"
  using assms by (induction xs arbitrary: s) (simp_all add: case_prod_unfold)

lemma edgeLoop_noEdges:
  assumes "noEdges edge d"
  shows "edgeLoop edge consistent d = (0, 0)"
proof -
  have "fold (\<lambda>y. fold (\<lambda>x (consistentEdges, totalEdges).
             if edge x y
             then (if consistent x y then consistentEdges + 1 else consistentEdges,
                   totalEdges + 1)
             else (consistentEdges, totalEdges)) xs) ys s = s"
    if "list_all (\<lambda>y. list_all (\<lambda>x. \<not> edge x y) xs) ys" for xs ys and s :: "nat \<times> nat"
    using that by (induction ys arbitrary: s) (simp_all add: edgeRow_noEdges)
  with assms show ?thesis
    by (simp add: edgeLoop_def noEdges_def)
qed

lemma single_pixel_noEdges:
  assumes "width d = 1" and "height d = 1"
  shows "noEdges edge d"
  using assms by (simp add: noEdges_def)

text \<open>
  Claim C9. On a buffer none of whose interior pixels passes the edge test, as the
  source computes it in double precision, the edge-consistency extractor returns the
  neutral fallback of its version: 50 in version 1, 75 in version 2, 85 in version 3.
  \<open>totalEdges\<close> stays 0 and the guard \<open>totalEdges > 0\<close> keeps the quotient
  \<open>consistentEdges / totalEdges\<close> from being formed; the extractor has no failing branch.
  In particular a 1 by 1 buffer, whose scan loops never run, gives the fallback whatever
  its samples.
\<close>

theorem edge_fallback:
  "(noEdges (isEdge_v1 d) d \<longrightarrow> analyzeEdgeConsistency_v1 rnd (Some d) = 50)
   \<and> (noEdges (isEdge_v2 d) d \<longrightarrow> analyzeEdgeConsistency_v2 rnd (Some d) = 75)
   \<and> (noEdges (isEdge_v3 d) d \<longrightarrow> analyzeEdgeConsistency_v3 rnd (Some d) = 85)
   \<and> (width d = 1 \<and> height d = 1 \<longrightarrow>
        analyzeEdgeConsistency_v1 rnd (Some d) = 50
        \<and> analyzeEdgeConsistency_v2 rnd (Some d) = 75
        \<and> analyzeEdgeConsistency_v3 rnd (Some d) = 85)"
proof -
  have v1: "analyzeEdgeConsistency_v1 rnd (Some d) = 50" if "noEdges (isEdge_v1 d) d"
    using that by (simp add: analyzeEdgeConsistency_v1_def edgeLoop_noEdges)
  have v2: "analyzeEdgeConsistency_v2 rnd (Some d) = 75" if "noEdges (isEdge_v2 d) d"
    using that by (simp add: analyzeEdgeConsistency_v2_def edgeLoop_noEdges)
  have v3: "analyzeEdgeConsistency_v3 rnd (Some d) = 85" if "noEdges (isEdge_v3 d) d"
    using that by (simp add: analyzeEdgeConsistency_v3_def edgeLoop_noEdges)
  show ?thesis
    using v1 v2 v3 single_pixel_noEdges [of d] by blast
qed

lemma flatNine_samples:
  "i < 36 \<Longrightarrow> channelAt flatNine i = Some 7"
  by (simp add: channelAt_def flatNine_def)

lemma flatNine_width: "width flatNine = 3" "height flatNine = 3"
  by (simp_all add: flatNine_def)

text \<open>The grayscale projection of the sample (7, 7, 7) is the double 7.\<close>

lemma gray_seven:
  "fl (fl (fl (fl 0.299 * 7) + fl (fl 0.587 * 7)) + fl (fl 0.114 * 7)) = 7"
proof -
  have c1: "fl 0.299 = 5386305154335113 / 18014398509481984"
    by (subst fl_at [where e = "- 2"]) (simp_all add: rne_def power_int_minus)
  have c2: "fl (5386305154335113 / 18014398509481984 * 7) = 589127126255403 / 281474976710656"
    by (subst fl_at [where e = "1"]) (simp_all add: rne_def power_int_minus)
  have c3: "fl 0.587 = 2643612981266481 / 4503599627370496"
    by (subst fl_at [where e = "- 1"]) (simp_all add: rne_def power_int_minus)
  have c4: "fl (2643612981266481 / 4503599627370496 * 7) = 2313161358608171 / 562949953421312"
    by (subst fl_at [where e = "2"]) (simp_all add: rne_def power_int_minus)
  have c5: "fl (589127126255403 / 281474976710656 + 2313161358608171 / 562949953421312)
      = 3491415611118977 / 562949953421312"
    by (subst fl_at [where e = "2"]) (simp_all add: rne_def power_int_minus)
  have c6: "fl 0.114 = 8214565720323785 / 72057594037927936"
    by (subst fl_at [where e = "- 4"]) (simp_all add: rne_def power_int_minus)
  have c7: "fl (8214565720323785 / 72057594037927936 * 7) = 449234062830207 / 562949953421312"
    by (subst fl_at [where e = "- 1"]) (simp_all add: rne_def power_int_minus)
  have c8: "fl (3491415611118977 / 562949953421312 + 449234062830207 / 562949953421312) = 7"
    by (subst fl_at [where e = "2"]) (simp_all add: rne_def power_int_minus)
  show ?thesis by (simp only: c1 c2 c3 c4 c5 c6 c7 c8)
qed

lemma flatNine_neighbourhoods:
  "neighbourhood redAt flatNine (Suc 0) (Suc 0)
     = [Some 7, Some 7, Some 7, Some 7, Some 7, Some 7, Some 7, Some 7, Some 7]"
  "neighbourhood grayAt flatNine (Suc 0) (Suc 0)
     = [Some 7, Some 7, Some 7, Some 7, Some 7, Some 7, Some 7, Some 7, Some 7]"
  by (simp_all add: neighbourhood_def redAt_def grayAt_def flatNine_samples flatNine_width
      gray_seven [simplified])

lemma flatNine_gradient:
  "gradient (neighbourhood redAt flatNine (Suc 0) (Suc 0)) = Some (0, 0)"
  "gradient (neighbourhood grayAt flatNine (Suc 0) (Suc 0)) = Some (0, 0)"
  unfolding gradient_def sobelX_def sobelY_def flatNine_neighbourhoods by simp_all

lemma upt_interior3: "[Suc 0..<2] = [Suc 0]"
  by (simp add: upt_rec)

lemma flatNine_noEdges:
  "noEdges (isEdge_v1 flatNine) flatNine" "noEdges (isEdge_v2 flatNine) flatNine"
  "noEdges (isEdge_v3 flatNine) flatNine"
  by (simp_all add: noEdges_def flatNine_width isEdge_v1_def isEdge_v2_def isEdge_v3_def
      upt_interior3 flatNine_gradient isEdge_def magnitude_def)

theorem edge_fallback_witness:
  "noEdges (isEdge_v1 flatNine) flatNine \<and> noEdges (isEdge_v2 flatNine) flatNine
   \<and> noEdges (isEdge_v3 flatNine) flatNine
   \<and> analyzeEdgeConsistency_v1 0 (Some flatNine) = 50
   \<and> analyzeEdgeConsistency_v2 0 (Some flatNine) = 75
   \<and> analyzeEdgeConsistency_v3 0 (Some flatNine) = 85
   \<and> width onePixel = 1 \<and> height onePixel = 1
   \<and> analyzeEdgeConsistency_v1 0 (Some onePixel) = 50
   \<and> analyzeEdgeConsistency_v2 0 (Some onePixel) = 75
   \<and> analyzeEdgeConsistency_v3 0 (Some onePixel) = 85"
proof -
  have one: "width onePixel = 1" "height onePixel = 1"
    by (simp_all add: onePixel_def)
  from edge_fallback [of flatNine 0] edge_fallback [of onePixel 0] flatNine_noEdges one
  show ?thesis by blast
qed

text \<open>
  The rounding decides the edge test. At the centre of the buffer \<open>stepNine\<close> the
  horizontal Sobel sum is 0 and the vertical one is four times the difference of the
  two gray levels, which is 50 over the reals: no edge for the threshold 50. The
  rounded operations give the gray level 10.999999999999998 to the first two rows and
  the vertical sum 50.00000000000001: the pixel is an edge, and version 3 returns 100
  where the fallback is 85.
\<close>

lemma gray_dark:
  "fl (fl (fl (fl 0.299 * 11) + fl (fl 0.587 * 11)) + fl (fl 0.114 * 11)) = 6192449487634431 /
    562949953421312"
proof -
  have c1: "fl 0.299 = 5386305154335113 / 18014398509481984"
    by (subst fl_at [where e = "- 2"]) (simp_all add: rne_def power_int_minus)
  have c2: "fl (5386305154335113 / 18014398509481984 * 11) = 1851542396802695 / 562949953421312"
    by (subst fl_at [where e = "1"]) (simp_all add: rne_def power_int_minus)
  have c3: "fl 0.587 = 2643612981266481 / 4503599627370496"
    by (subst fl_at [where e = "- 1"]) (simp_all add: rne_def power_int_minus)
  have c4: "fl (2643612981266481 / 4503599627370496 * 11) = 7269935698482823 / 1125899906842624"
    by (subst fl_at [where e = "2"]) (simp_all add: rne_def power_int_minus)
  have c5: "fl (1851542396802695 / 562949953421312 + 7269935698482823 / 1125899906842624)
      = 2743255123022053 / 281474976710656"
    by (subst fl_at [where e = "3"]) (simp_all add: rne_def power_int_minus)
  have c6: "fl 0.114 = 8214565720323785 / 72057594037927936"
    by (subst fl_at [where e = "- 4"]) (simp_all add: rne_def power_int_minus)
  have c7: "fl (8214565720323785 / 72057594037927936 * 11)
      = 2823756966361301 / 2251799813685248"
    by (subst fl_at [where e = "0"]) (simp_all add: rne_def power_int_minus)
  have c8: "fl (2743255123022053 / 281474976710656 + 2823756966361301 / 2251799813685248)
      = 6192449487634431 / 562949953421312"
    by (subst fl_at [where e = "3"]) (simp_all add: rne_def power_int_minus)
  show ?thesis by (simp only: c1 c2 c3 c4 c5 c6 c7 c8)
qed

lemma gray_step:
  "fl (fl (fl (fl 0.299 * 16) + fl (fl 0.587 * 28)) + fl (fl 0.114 * 20)) = 47 / 2"
proof -
  have c1: "fl 0.299 = 5386305154335113 / 18014398509481984"
    by (subst fl_at [where e = "- 2"]) (simp_all add: rne_def power_int_minus)
  have c2: "fl (5386305154335113 / 18014398509481984 * 16)
      = 5386305154335113 / 1125899906842624"
    by (subst fl_at [where e = "2"]) (simp_all add: rne_def power_int_minus)
  have c3: "fl 0.587 = 2643612981266481 / 4503599627370496"
    by (subst fl_at [where e = "- 1"]) (simp_all add: rne_def power_int_minus)
  have c4: "fl (2643612981266481 / 4503599627370496 * 28) = 2313161358608171 / 140737488355328"
    by (subst fl_at [where e = "4"]) (simp_all add: rne_def power_int_minus)
  have c5: "fl (5386305154335113 / 1125899906842624 + 2313161358608171 / 140737488355328)
      = 746612375725015 / 35184372088832"
    by (subst fl_at [where e = "4"]) (simp_all add: rne_def power_int_minus)
  have c6: "fl 0.114 = 8214565720323785 / 72057594037927936"
    by (subst fl_at [where e = "- 4"]) (simp_all add: rne_def power_int_minus)
  have c7: "fl (8214565720323785 / 72057594037927936 * 20)
      = 2567051787601183 / 1125899906842624"
    by (subst fl_at [where e = "1"]) (simp_all add: rne_def power_int_minus)
  have c8: "fl (746612375725015 / 35184372088832 + 2567051787601183 / 1125899906842624)
      = 47 / 2"
    by (subst fl_at [where e = "4"]) (simp_all add: rne_def power_int_minus)
  show ?thesis by (simp only: c1 c2 c3 c4 c5 c6 c7 c8)
qed

lemma sobelX_step:
  "fl (fl (fl (fl (fl (fl (- 1 * (6192449487634431 / 562949953421312)) + fl (1 *
    (6192449487634431 / 562949953421312))) + fl (- 2 * (6192449487634431 / 562949953421312))) +
    fl (2 * (6192449487634431 / 562949953421312))) + fl (- 1 * (47 / 2))) + fl (1 * (47 / 2)))
    = 0"
proof -
  have c1: "fl (- 1 * (6192449487634431 / 562949953421312))
      = - (6192449487634431 / 562949953421312)"
    by (subst fl_at [where e = "3"]) (simp_all add: rne_def power_int_minus)
  have c2: "fl (1 * (6192449487634431 / 562949953421312)) = 6192449487634431 / 562949953421312"
    by (subst fl_at [where e = "3"]) (simp_all add: rne_def power_int_minus)
  have c3: "fl (- (6192449487634431 / 562949953421312) + 6192449487634431 / 562949953421312)
      = 0"
    by simp
  have c4: "fl (- 2 * (6192449487634431 / 562949953421312))
      = - (6192449487634431 / 281474976710656)"
    by (subst fl_at [where e = "4"]) (simp_all add: rne_def power_int_minus)
  have c5: "fl (0 + (- (6192449487634431 / 281474976710656)))
      = - (6192449487634431 / 281474976710656)"
    by (subst fl_at [where e = "4"]) (simp_all add: rne_def power_int_minus)
  have c6: "fl (2 * (6192449487634431 / 562949953421312)) = 6192449487634431 / 281474976710656"
    by (subst fl_at [where e = "4"]) (simp_all add: rne_def power_int_minus)
  have c7: "fl (- (6192449487634431 / 281474976710656) + 6192449487634431 / 281474976710656)
      = 0"
    by simp
  have c8: "fl (- 1 * (47 / 2)) = - (47 / 2)"
    by (subst fl_at [where e = "4"]) (simp_all add: rne_def power_int_minus)
  have c9: "fl (0 + (- (47 / 2))) = - (47 / 2)"
    by (subst fl_at [where e = "4"]) (simp_all add: rne_def power_int_minus)
  have c10: "fl (1 * (47 / 2)) = 47 / 2"
    by (subst fl_at [where e = "4"]) (simp_all add: rne_def power_int_minus)
  have c11: "fl (- (47 / 2) + 47 / 2) = 0"
    by simp
  show ?thesis by (simp only: c1 c2 c3 c4 c5 c6 c7 c8 c9 c10 c11)
qed

lemma sobelY_step:
  "fl (fl (fl (fl (fl (fl (- 1 * (6192449487634431 / 562949953421312)) + fl (- 2 *
    (6192449487634431 / 562949953421312))) + fl (- 1 * (6192449487634431 / 562949953421312))) +
    fl (1 * (47 / 2))) + fl (2 * (47 / 2))) + fl (1 * (47 / 2))) = 7036874417766401 /
    140737488355328"
proof -
  have c1: "fl (- 1 * (6192449487634431 / 562949953421312))
      = - (6192449487634431 / 562949953421312)"
    by (subst fl_at [where e = "3"]) (simp_all add: rne_def power_int_minus)
  have c2: "fl (- 2 * (6192449487634431 / 562949953421312))
      = - (6192449487634431 / 281474976710656)"
    by (subst fl_at [where e = "4"]) (simp_all add: rne_def power_int_minus)
  have c3: "fl (- (6192449487634431 / 562949953421312) + (- (6192449487634431 / 281474976710656)))
      = - (4644337115725823 / 140737488355328)"
    by (subst fl_at [where e = "5"]) (simp_all add: rne_def power_int_minus)
  have c4: "fl (- (4644337115725823 / 140737488355328) + (- (6192449487634431 / 562949953421312)))
      = - (6192449487634431 / 140737488355328)"
    by (subst fl_at [where e = "5"]) (simp_all add: rne_def power_int_minus)
  have c5: "fl (1 * (47 / 2)) = 47 / 2"
    by (subst fl_at [where e = "4"]) (simp_all add: rne_def power_int_minus)
  have c6: "fl (- (6192449487634431 / 140737488355328) + 47 / 2)
      = - (2885118511284223 / 140737488355328)"
    by (subst fl_at [where e = "4"]) (simp_all add: rne_def power_int_minus)
  have c7: "fl (2 * (47 / 2)) = 47"
    by (subst fl_at [where e = "5"]) (simp_all add: rne_def power_int_minus)
  have c8: "fl (- (2885118511284223 / 140737488355328) + 47)
      = 3729543441416193 / 140737488355328"
    by (subst fl_at [where e = "4"]) (simp_all add: rne_def power_int_minus)
  have c9: "fl (3729543441416193 / 140737488355328 + 47 / 2)
      = 7036874417766401 / 140737488355328"
    by (subst fl_at [where e = "5"]) (simp_all add: rne_def power_int_minus)
  show ?thesis by (simp only: c1 c2 c3 c4 c5 c6 c7 c8 c9)
qed

lemma square_step:
  "fl (7036874417766401 / 140737488355328 * (7036874417766401 / 140737488355328)) =
    2748779069440001 / 1099511627776"
proof -
  have c1: "fl (7036874417766401 / 140737488355328 * (7036874417766401 / 140737488355328))
      = 2748779069440001 / 1099511627776"
    by (subst fl_at [where e = "11"]) (simp_all add: rne_def power_int_minus)
  show ?thesis by (simp only: c1)
qed

lemma stepNine_neighbourhood:
  "neighbourhood grayAt stepNine (Suc 0) (Suc 0)
     = [Some (6192449487634431 / 562949953421312), Some (6192449487634431 / 562949953421312),
        Some (6192449487634431 / 562949953421312), Some (6192449487634431 / 562949953421312),
        Some (6192449487634431 / 562949953421312), Some (6192449487634431 / 562949953421312),
        Some (47 / 2), Some (47 / 2), Some (47 / 2)]"
  by (simp add: neighbourhood_def grayAt_def channelAt_def stepNine_def
      gray_dark [simplified] gray_step [simplified])

lemma stepNine_gradient:
  "gradient (neighbourhood grayAt stepNine (Suc 0) (Suc 0))
     = Some (0, 7036874417766401 / 140737488355328)"
  unfolding stepNine_neighbourhood
  by (simp add: gradient_def sobelX_def sobelY_def sobelX_step [simplified]
      sobelY_step [simplified])

lemma stepNine_magnitude: "50 < magnitude (0, 7036874417766401 / 140737488355328)"
proof -
  let ?sy = "7036874417766401 / 140737488355328 :: real"
  let ?w = "2748779069440001 / 1099511627776 :: real"
  have fixed: "fl ?sy = ?sy"
    by (subst fl_at [where e = "5"]) (simp_all add: rne_def power_int_minus)
  have "?sy \<le> fl (sqrt ?w)"
    by (rule fl_sqrt_ge [OF fixed]) (simp_all add: power2_eq_square)
  moreover have "50 < ?sy" by simp
  ultimately have "50 < fl (sqrt ?w)" by linarith
  moreover have "fl ?w = ?w"
    by (subst fl_at [where e = "11"]) (simp_all add: rne_def power_int_minus)
  ultimately show ?thesis
    unfolding magnitude_def prod.case
    by (simp only: mult_zero_left fl_0 add_0 square_step)
qed

lemma stepNine_edge:
  "4 * ((0.299 * 16 + 0.587 * 28 + 0.114 * 20) - (0.299 * 11 + 0.587 * 11 + 0.114 * 11))
     = (50::real)"
  "isEdge_v3 stepNine (Suc 0) (Suc 0)"
  "\<not> noEdges (isEdge_v3 stepNine) stepNine"
  "analyzeEdgeConsistency_v3 rnd (Some stepNine) = 100"
proof -
  show "4 * ((0.299 * 16 + 0.587 * 28 + 0.114 * 20) - (0.299 * 11 + 0.587 * 11 + 0.114 * 11))
     = (50::real)" by simp
  show e: "isEdge_v3 stepNine (Suc 0) (Suc 0)"
    unfolding isEdge_v3_def stepNine_gradient isEdge_def using stepNine_magnitude by simp
  have w: "width stepNine = 3" "height stepNine = 3" by (simp_all add: stepNine_def)
  from e show "\<not> noEdges (isEdge_v3 stepNine) stepNine"
    by (simp add: noEdges_def w upt_interior3)
  from e show "analyzeEdgeConsistency_v3 rnd (Some stepNine) = 100"
    by (simp add: analyzeEdgeConsistency_v3_def edgeLoop_def w upt_interior3)
qed

end
